theory Spec2Isabelle
  imports Main "HOL-Library.Word"
begin

unbundle bit_operations_syntax

section \<open>IR data model\<close>

text \<open>
  IR nodes are immutable and shared through pointers; the passes compare expression
  pointers (\<open>new_arg != arg\<close>) to decide whether a subtree was rebuilt.  Every expression
  node therefore carries the address it was allocated at, and \<open>std::make_shared\<close> of an
  expression takes the next free address from an allocation counter that is threaded
  through the functions.  Statements, functions and programs are never compared by
  pointer in the code modelled here, so they carry no address.  Fields are named as in
  the source, without the trailing underscore.
\<close>

type_synonym ptr = nat
type_synonym heap = nat

datatype Span = Span string nat nat

datatype DataType = FP32 | FP16 | BF16 | INT8 | UINT8 | INT32 | INT64 | BOOL

datatype MemorySpace = DDR | UB | L1 | L0A | L0B | L0C

text \<open>The dynamically typed values (\<open>std::any\<close>) that keyword arguments carry.\<close>

datatype any = AnyMemorySpace MemorySpace | AnyDataType DataType | AnyInt int | AnyBool bool
  | AnyString string

type_synonym kwargs = "(string \<times> any) list"

text \<open>\<open>Call::op_\<close> is an \<open>Op\<close> (a primitive) or its subclass \<open>GlobalVar\<close> (a function).\<close>

datatype Op = Op string | GlobalVar string

fun op_name :: "Op \<Rightarrow> string" where
  "op_name (Op n) = n"
| "op_name (GlobalVar n) = n"

fun is_GlobalVar :: "Op \<Rightarrow> bool" where
  "is_GlobalVar (GlobalVar n) = True"
| "is_GlobalVar (Op n) = False"

datatype BinaryKind = Add | Sub | Mul | FloorDiv | FloorMod | FloatDiv | Pow | Min | Max
  | Eq | Ne | Lt | Le | Gt | Ge | And | Or | Xor | BitAnd | BitOr | BitXor
  | BitShiftLeft | BitShiftRight

datatype UnaryKind = Abs | Neg | Not | BitNot | Cast

text \<open>
  Variables, expressions and types.  A \<open>VarPtr\<close> used as an expression is \<open>VarExpr\<close>.
  \<open>BinaryExpr\<close> and \<open>UnaryExpr\<close> stand for all their concrete subclasses, told apart by
  the kind.  The other leaves of the source (\<open>ConstFloat\<close> and the like) are treated by
  the code modelled here exactly as \<open>ConstInt\<close> is and are left out.  \<open>NullType\<close> is the
  null \<open>TypePtr\<close>; \<open>VoidType\<close> is the sentinel type of an expression that was built
  without a type.
\<close>

datatype Var = Var ptr string Type Span
and Expr =
    VarExpr Var
  | ConstInt ptr int DataType Span
  | ConstBool ptr bool Span
  | Call ptr Op "Expr list" kwargs Type Span
  | MakeTuple ptr "Expr list" Span
  | TupleGetItemExpr ptr Expr int Span
  | BinaryExpr ptr BinaryKind Expr Expr DataType Span
  | UnaryExpr ptr UnaryKind Expr DataType Span
and Type =
    NullType
  | VoidType
  | ScalarType DataType
  | TensorType "Expr list" DataType "MemorySpace option"
  | TileType "Expr list" DataType "MemorySpace option"
  | TupleType "Type list"

fun var_ptr :: "Var \<Rightarrow> ptr" where
  "var_ptr (Var p n t s) = p"

fun var_name :: "Var \<Rightarrow> string" where
  "var_name (Var p n t s) = n"

fun var_type :: "Var \<Rightarrow> Type" where
  "var_type (Var p n t s) = t"

fun var_span :: "Var \<Rightarrow> Span" where
  "var_span (Var p n t s) = s"

text \<open>The address of an expression node: what \<open>ExprPtr\<close> equality compares.\<close>

fun expr_ptr :: "Expr \<Rightarrow> ptr" where
  "expr_ptr (VarExpr v) = var_ptr v"
| "expr_ptr (ConstInt p i d s) = p"
| "expr_ptr (ConstBool p b s) = p"
| "expr_ptr (Call p f as kw t s) = p"
| "expr_ptr (MakeTuple p es s) = p"
| "expr_ptr (TupleGetItemExpr p e i s) = p"
| "expr_ptr (BinaryExpr p k l r d s) = p"
| "expr_ptr (UnaryExpr p k e d s) = p"

text \<open>
  Modelled from the spec: the type an expression records (\<open>expr.h\<close> is not among the
  sources).  A variable and a call store the type they were built with; a constant and
  scalar arithmetic have the scalar type of their dtype; a tuple has the tuple type of
  its elements, and a projection the type of the selected component.
\<close>

fun GetType :: "Expr \<Rightarrow> Type" where
  "GetType (VarExpr v) = var_type v"
| "GetType (ConstInt p i d s) = ScalarType d"
| "GetType (ConstBool p b s) = ScalarType BOOL"
| "GetType (Call p f as kw t s) = t"
| "GetType (MakeTuple p es s) = TupleType (map GetType es)"
| "GetType (TupleGetItemExpr p e i s) =
     (case GetType e of
        TupleType ts \<Rightarrow> (if 0 \<le> i \<and> nat i < length ts then ts ! nat i else VoidType)
      | _ \<Rightarrow> VoidType)"
| "GetType (BinaryExpr p k l r d s) = ScalarType d"
| "GetType (UnaryExpr p k e d s) = ScalarType d"

text \<open>Statements.  Of \<open>IfStmt\<close> and \<open>ForStmt\<close> only the condition, the bounds and the
  bodies are kept: no function modelled here reads their other fields.\<close>

datatype Stmt =
    AssignStmt Var Expr Span
  | EvalStmt Expr Span
  | ReturnStmt "Expr list" Span
  | IfStmt Expr Stmt "Stmt option" Span
  | ForStmt Var Expr Expr Expr Stmt Span
  | SeqStmts "Stmt list" Span

datatype FunctionType = Opaque | Orchestration | InCore

record Function =
  func_name :: string
  params :: "Var list"
  return_types :: "Type list"
  body :: Stmt
  func_span :: Span
  func_type :: FunctionType

text \<open>What a function can raise: a failed \<open>INTERNAL_CHECK\<close>, the two errors of the op
  registry, and a read beyond the end of a vector.\<close>

datatype error = InternalCheck string | UnknownOp string | TypeMismatch string
  | UndefinedBehaviour string

section \<open>Variable substitution\<close>

text \<open>\<open>std::unordered_map<std::string, VarPtr>\<close>: \<open>find\<close> is \<open>map_of\<close>, \<open>m[k] = v\<close> puts
  the pair in front, \<open>empty()\<close> is \<open>m = []\<close>.\<close>

type_synonym var_map = "(string \<times> Var) list"

text \<open>
  \<open>SubstituteExpr\<close>.  The second function is the loop over the arguments of a call or the
  elements of a tuple: it returns the new vector and the \<open>changed\<close> flag.
\<close>

fun SubstituteExpr :: "Expr \<Rightarrow> var_map \<Rightarrow> heap \<Rightarrow> error + (Expr \<times> heap)"
and SubstituteExprs :: "Expr list \<Rightarrow> var_map \<Rightarrow> heap \<Rightarrow> error + (Expr list \<times> bool \<times> heap)"
where
  "SubstituteExpr (VarExpr v) m h =
     (case map_of m (var_name v) of
        Some w \<Rightarrow> Inr (VarExpr w, h)
      | None \<Rightarrow> Inr (VarExpr v, h))"
| "SubstituteExpr (Call p f as kw t s) m h =
     (case SubstituteExprs as m h of
        Inl e \<Rightarrow> Inl e
      | Inr (new_args, changed, h1) \<Rightarrow>
          if \<not> changed then Inr (Call p f as kw t s, h1)
          else Inr (Call h1 f new_args kw t s, Suc h1))"
| "SubstituteExpr (MakeTuple p es s) m h =
     (case SubstituteExprs es m h of
        Inl e \<Rightarrow> Inl e
      | Inr (new_elements, changed, h1) \<Rightarrow>
          if \<not> changed then Inr (MakeTuple p es s, h1)
          else Inr (MakeTuple h1 new_elements s, Suc h1))"
| "SubstituteExpr (TupleGetItemExpr p e i s) m h =
     (case SubstituteExpr e m h of
        Inl err \<Rightarrow> Inl err
      | Inr (new_tuple, h1) \<Rightarrow>
          if expr_ptr new_tuple = expr_ptr e then Inr (TupleGetItemExpr p e i s, h1)
          else Inr (TupleGetItemExpr h1 new_tuple i s, Suc h1))"
| "SubstituteExpr (BinaryExpr p k l r d s) m h =
     (case SubstituteExpr l m h of
        Inl err \<Rightarrow> Inl err
      | Inr (new_left, h1) \<Rightarrow>
          (case SubstituteExpr r m h1 of
             Inl err \<Rightarrow> Inl err
           | Inr (new_right, h2) \<Rightarrow>
               if expr_ptr new_left = expr_ptr l \<and> expr_ptr new_right = expr_ptr r
               then Inr (BinaryExpr p k l r d s, h2)
               else Inl (InternalCheck ''Internal error: BinaryExpr operand substitution not supported'')))"
| "SubstituteExpr (UnaryExpr p k e d s) m h =
     (case SubstituteExpr e m h of
        Inl err \<Rightarrow> Inl err
      | Inr (new_operand, h1) \<Rightarrow>
          if expr_ptr new_operand = expr_ptr e then Inr (UnaryExpr p k e d s, h1)
          else Inl (InternalCheck ''Internal error: UnaryExpr operand substitution not supported''))"
| "SubstituteExpr (ConstInt p i d s) m h = Inr (ConstInt p i d s, h)"
| "SubstituteExpr (ConstBool p b s) m h = Inr (ConstBool p b s, h)"
| "SubstituteExprs [] m h = Inr ([], False, h)"
| "SubstituteExprs (a # as) m h =
     (case SubstituteExpr a m h of
        Inl e \<Rightarrow> Inl e
      | Inr (new_arg, h1) \<Rightarrow>
          (case SubstituteExprs as m h1 of
             Inl e \<Rightarrow> Inl e
           | Inr (new_args, changed, h2) \<Rightarrow>
               Inr (new_arg # new_args, (if expr_ptr new_arg \<noteq> expr_ptr a then True else changed), h2)))"

text \<open>The names of the variables that occur in an expression (types are not entered,
  as \<open>SubstituteExpr\<close> does not enter them).\<close>

fun expr_vars :: "Expr \<Rightarrow> string set" where
  "expr_vars (VarExpr v) = {var_name v}"
| "expr_vars (ConstInt p i d s) = {}"
| "expr_vars (ConstBool p b s) = {}"
| "expr_vars (Call p f as kw t s) = (\<Union>a \<in> set as. expr_vars a)"
| "expr_vars (MakeTuple p es s) = (\<Union>a \<in> set es. expr_vars a)"
| "expr_vars (TupleGetItemExpr p e i s) = expr_vars e"
| "expr_vars (BinaryExpr p k l r d s) = expr_vars l \<union> expr_vars r"
| "expr_vars (UnaryExpr p k e d s) = expr_vars e"

fun is_scalar_arith :: "Expr \<Rightarrow> bool" where
  "is_scalar_arith (BinaryExpr p k l r d s) = True"
| "is_scalar_arith (UnaryExpr p k e d s) = True"
| "is_scalar_arith e = False"

section \<open>Op registry\<close>

text \<open>
  Modelled from the spec: \<open>OpRegistry\<close> (\<open>op_registry.h\<close> and its implementation are not
  among the sources).  The registry maps an op name to its entry: category, default
  keyword arguments and the rule that infers the result type.  \<open>Create\<close> looks the entry
  up, merges the user's keyword arguments with the defaults (the user's win; here the
  user's come first and the defaults that the user did not give follow), computes the
  result type and returns a new call; it fails with \<open>UnknownOp\<close> or with the error of the
  type rule.  The table itself is a parameter of everything that uses it.
\<close>

record OpEntry =
  category :: string
  default_kwargs :: kwargs
  infer_result_type :: "Expr list \<Rightarrow> kwargs \<Rightarrow> error + Type"

type_synonym OpRegistry = "string \<rightharpoonup> OpEntry"

definition merge_kwargs :: "kwargs \<Rightarrow> kwargs \<Rightarrow> kwargs" where
  "merge_kwargs user defaults = user @ filter (\<lambda>kv. fst kv \<notin> fst ` set user) defaults"

definition Create :: "OpRegistry \<Rightarrow> string \<Rightarrow> Expr list \<Rightarrow> kwargs \<Rightarrow> Span \<Rightarrow> heap \<Rightarrow> error + (Expr \<times> heap)" where
  "Create reg name args kw span h =
     (case reg name of
        None \<Rightarrow> Inl (UnknownOp name)
      | Some entry \<Rightarrow>
          (case infer_result_type entry args (merge_kwargs kw (default_kwargs entry)) of
             Inl e \<Rightarrow> Inl e
           | Inr t \<Rightarrow> Inr (Call h (Op name) args (merge_kwargs kw (default_kwargs entry)) t span, Suc h)))"

definition IsRegistered :: "OpRegistry \<Rightarrow> string \<Rightarrow> bool" where
  "IsRegistered reg name = (reg name \<noteq> None)"

section \<open>Op-conversion registry\<close>

record ConversionResult =
  prologue :: "Stmt list"
  result :: Expr

text \<open>A \<open>ConversionFunc\<close>; it reads the op registry singleton and allocates nodes, so
  the model passes it the op table and the allocation counter.\<close>

type_synonym ConversionFunc =
  "OpRegistry \<Rightarrow> Expr list \<Rightarrow> kwargs \<Rightarrow> Span \<Rightarrow> heap \<Rightarrow> error + (ConversionResult \<times> heap)"

type_synonym OpConversionRegistry = "string \<rightharpoonup> ConversionFunc"

text \<open>The lambda that \<open>RegisterSimple\<close> stores (\<open>to_op\<close> captured by value).  The overload
  of \<open>Create\<close> without keyword arguments is \<open>Create\<close> with none.\<close>

definition simple_conversion :: "string \<Rightarrow> ConversionFunc" where
  "simple_conversion to_op reg args kw span h =
     (case (if kw = [] then Create reg to_op args [] span h else Create reg to_op args kw span h) of
        Inl e \<Rightarrow> Inl e
      | Inr (call, h1) \<Rightarrow> Inr (\<lparr>prologue = [], result = call\<rparr>, h1))"

definition RegisterSimple :: "string \<Rightarrow> string \<Rightarrow> OpConversionRegistry \<Rightarrow> OpConversionRegistry" where
  "RegisterSimple from_op to_op conversions = conversions(from_op \<mapsto> simple_conversion to_op)"

definition RegisterCustom :: "string \<Rightarrow> ConversionFunc \<Rightarrow> OpConversionRegistry \<Rightarrow> OpConversionRegistry" where
  "RegisterCustom from_op func conversions = conversions(from_op \<mapsto> func)"

definition Lookup :: "OpConversionRegistry \<Rightarrow> string \<Rightarrow> ConversionFunc option" where
  "Lookup conversions nm = conversions nm"

definition HasConversion :: "OpConversionRegistry \<Rightarrow> string \<Rightarrow> bool" where
  "HasConversion conversions nm = (conversions nm \<noteq> None)"

text \<open>The constructor: the thirteen default registrations, in the order of the source,
  on the empty map.\<close>

definition OpConversionRegistry_init :: OpConversionRegistry where
  "OpConversionRegistry_init =
     (RegisterSimple ''tensor.transpose'' ''block.transpose''
     (RegisterSimple ''tensor.reshape'' ''block.reshape''
     (RegisterSimple ''tensor.cast'' ''block.cast''
     (RegisterSimple ''tensor.exp'' ''block.exp''
     (RegisterSimple ''tensor.div_scalar'' ''block.divs''
     (RegisterSimple ''tensor.mul_scalar'' ''block.muls''
     (RegisterSimple ''tensor.sub_scalar'' ''block.subs''
     (RegisterSimple ''tensor.add_scalar'' ''block.adds''
     (RegisterSimple ''tensor.maximum'' ''block.maximum''
     (RegisterSimple ''tensor.div'' ''block.div''
     (RegisterSimple ''tensor.mul'' ''block.mul''
     (RegisterSimple ''tensor.sub'' ''block.sub''
     (RegisterSimple ''tensor.add'' ''block.add'' Map.empty)))))))))))))"

section \<open>ConvertTensorToBlockOps: the InCore function\<close>

fun push_zeros :: "nat \<Rightarrow> Span \<Rightarrow> heap \<Rightarrow> Expr list" where
  "push_zeros 0 span h = []"
| "push_zeros (Suc n) span h = ConstInt h 0 INT64 span # push_zeros n span (Suc h)"

definition MakeZeroOffsets :: "nat \<Rightarrow> Span \<Rightarrow> heap \<Rightarrow> Expr \<times> heap" where
  "MakeZeroOffsets ndim span h = (MakeTuple (h + ndim) (push_zeros ndim span h) span, Suc (h + ndim))"

definition MakeShapeTuple :: "Expr list \<Rightarrow> Span \<Rightarrow> heap \<Rightarrow> Expr \<times> heap" where
  "MakeShapeTuple shape span h = (MakeTuple h shape span, Suc h)"

text \<open>\<open>std::to_string\<close> of a \<open>size_t\<close>: the decimal digits.\<close>

function to_string :: "nat \<Rightarrow> string" where
  "to_string n = (if n < 10 then [''0123456789'' ! n] else to_string (n div 10) @ [''0123456789'' ! (n mod 10)])"
  by pat_completeness auto
termination
  by (relation "measure id") auto

declare to_string.simps [simp del]

text \<open>Phase 1: a \<open>block.load\<close> for each parameter of tensor type.\<close>

fun insert_loads :: "OpRegistry \<Rightarrow> Span \<Rightarrow> Var list \<Rightarrow> var_map \<Rightarrow> Stmt list \<Rightarrow> heap
    \<Rightarrow> error + (var_map \<times> Stmt list \<times> heap)" where
  "insert_loads reg span [] tensor_to_tile new_stmts h = Inr (tensor_to_tile, new_stmts, h)"
| "insert_loads reg span (param # ps) tensor_to_tile new_stmts h =
     (case var_type param of
        TensorType shape dt ms \<Rightarrow>
          (let (offsets, h1) = MakeZeroOffsets (length shape) span h;
               (shapes, h2) = MakeShapeTuple shape span h1
           in (case Create reg ''block.load'' [VarExpr param, offsets, shapes]
                       [(''target_memory'', AnyMemorySpace UB)] span h2 of
                 Inl e \<Rightarrow> Inl e
               | Inr (load_call, h3) \<Rightarrow>
                   (let tile_var = Var h3 (var_name param @ ''_tile'') (GetType load_call) span
                    in insert_loads reg span ps ((var_name param, tile_var) # tensor_to_tile)
                         (new_stmts @ [AssignStmt tile_var load_call span]) (Suc h3))))
      | _ \<Rightarrow> insert_loads reg span ps tensor_to_tile new_stmts h)"

text \<open>The state of the loop over the body: the map, the new statements, the last return
  statement seen, the allocation counter.\<close>

record body_state =
  tensor_to_tile :: var_map
  new_stmts :: "Stmt list"
  return_stmt :: "(Expr list \<times> Span) option"
  bheap :: heap

text \<open>The block the source repeats for an assignment that is kept (its value is no call,
  a call of a function, or a call of an op without a conversion): substitute, and rebuild
  the assignment only when the value changed.\<close>

definition keep_assign :: "Var \<Rightarrow> Expr \<Rightarrow> Span \<Rightarrow> body_state \<Rightarrow> error + body_state" where
  "keep_assign var val span st =
     (case SubstituteExpr val (tensor_to_tile st) (bheap st) of
        Inl e \<Rightarrow> Inl e
      | Inr (new_value, h1) \<Rightarrow>
          if expr_ptr new_value \<noteq> expr_ptr val then
            (let new_var = Var h1 (var_name var) (GetType new_value) (var_span var)
             in Inr (st\<lparr>new_stmts := new_stmts st @ [AssignStmt new_var new_value span],
                       tensor_to_tile := (var_name var, new_var) # tensor_to_tile st,
                       bheap := Suc h1\<rparr>))
          else Inr (st\<lparr>new_stmts := new_stmts st @ [AssignStmt var val span], bheap := h1\<rparr>))"

definition convert_assign :: "OpRegistry \<Rightarrow> ConversionFunc \<Rightarrow> Var \<Rightarrow> Expr list \<Rightarrow> kwargs \<Rightarrow> Span
    \<Rightarrow> Span \<Rightarrow> body_state \<Rightarrow> error + body_state" where
  "convert_assign reg converter var args kw call_span span st =
     (case SubstituteExprs args (tensor_to_tile st) (bheap st) of
        Inl e \<Rightarrow> Inl e
      | Inr (substituted_args, changed, h1) \<Rightarrow>
          (case converter reg substituted_args kw call_span h1 of
             Inl e \<Rightarrow> Inl e
           | Inr (res, h2) \<Rightarrow>
               (let tile_var = Var h2 (var_name var @ ''_tile'') (GetType (result res)) (var_span var)
                in Inr (st\<lparr>new_stmts := new_stmts st @ prologue res @ [AssignStmt tile_var (result res) span],
                          tensor_to_tile := (var_name var, tile_var) # tensor_to_tile st,
                          bheap := Suc h2\<rparr>))))"

text \<open>Phase 2, one statement of the flattened body.\<close>

fun convert_stmt :: "OpRegistry \<Rightarrow> OpConversionRegistry \<Rightarrow> Stmt \<Rightarrow> body_state \<Rightarrow> error + body_state" where
  "convert_stmt reg conv (ReturnStmt vals span) st = Inr (st\<lparr>return_stmt := Some (vals, span)\<rparr>)"
| "convert_stmt reg conv (AssignStmt var (Call p f args kw t call_span) span) st =
     (if is_GlobalVar f then keep_assign var (Call p f args kw t call_span) span st
      else (case Lookup conv (op_name f) of
              None \<Rightarrow> keep_assign var (Call p f args kw t call_span) span st
            | Some converter \<Rightarrow> convert_assign reg converter var args kw call_span span st))"
| "convert_stmt reg conv (AssignStmt var val span) st = keep_assign var val span st"
| "convert_stmt reg conv stmt st = Inr (st\<lparr>new_stmts := new_stmts st @ [stmt]\<rparr>)"

fun convert_stmts :: "OpRegistry \<Rightarrow> OpConversionRegistry \<Rightarrow> Stmt list \<Rightarrow> body_state \<Rightarrow> error + body_state" where
  "convert_stmts reg conv [] st = Inr st"
| "convert_stmts reg conv (stmt # stmts) st =
     (case convert_stmt reg conv stmt st of
        Inl e \<Rightarrow> Inl e
      | Inr st1 \<Rightarrow> convert_stmts reg conv stmts st1)"

text \<open>Flattening a body: the statements of a \<open>SeqStmts\<close>, or the one statement.\<close>

fun flatten_body :: "Stmt \<Rightarrow> Stmt list" where
  "flatten_body (SeqStmts stmts span) = stmts"
| "flatten_body stmt = [stmt]"

text \<open>Phase 3: the state of the loop over the returned values.\<close>

record ret_state =
  new_params :: "Var list"
  new_return_types :: "Type list"
  new_return_exprs :: "Expr list"
  added :: nat
  out_stmts :: "Stmt list"
  rheap :: heap

text \<open>The loop over \<open>return_stmt->value_\<close>, \<open>i\<close> being the index of the value at the head.
  \<open>func->return_types_[i]\<close> is read only for a value of tile type; reading a vector
  beyond its end is undefined behaviour in the source and an error here.\<close>

fun store_returns :: "OpRegistry \<Rightarrow> Type list \<Rightarrow> var_map \<Rightarrow> Span \<Rightarrow> nat \<Rightarrow> Expr list \<Rightarrow> ret_state
    \<Rightarrow> error + ret_state" where
  "store_returns reg rtypes m span i [] st = Inr st"
| "store_returns reg rtypes m span i (e # es) st =
     (case SubstituteExpr e m (rheap st) of
        Inl err \<Rightarrow> Inl err
      | Inr (ret_expr, h1) \<Rightarrow>
          (case GetType ret_expr of
             TileType tile_shape tile_dt tile_ms \<Rightarrow>
               (if length rtypes \<le> i then Inl (UndefinedBehaviour ''return_types_ read out of range'')
                else (case rtypes ! i of
                   TensorType shape dt ms \<Rightarrow>
                     (let out_name = ''out_'' @ to_string (added st);
                          out_param = Var h1 out_name (TensorType shape dt ms) span;
                          (offsets, h2) = MakeZeroOffsets (length tile_shape) span (Suc h1);
                          (shapes, h3) = MakeShapeTuple tile_shape span h2
                      in (case Create reg ''block.store'' [ret_expr, offsets, shapes, VarExpr out_param] [] span h3 of
                            Inl err \<Rightarrow> Inl err
                          | Inr (store_call, h4) \<Rightarrow>
                              (let store_var = Var h4 out_name (GetType store_call) span
                               in store_returns reg rtypes m span (Suc i) es
                                    (st\<lparr>new_params := new_params st @ [out_param],
                                       out_stmts := out_stmts st @ [AssignStmt store_var store_call span],
                                       new_return_types := new_return_types st @ [GetType store_call],
                                       new_return_exprs := new_return_exprs st @ [VarExpr store_var],
                                       added := Suc (added st),
                                       rheap := Suc h4\<rparr>))))
                 | _ \<Rightarrow> Inl (InternalCheck ''Internal error: return type should be TensorType'')))
           | _ \<Rightarrow>
               store_returns reg rtypes m span (Suc i) es
                 (st\<lparr>new_return_types := new_return_types st @ [GetType ret_expr],
                    new_return_exprs := new_return_exprs st @ [ret_expr],
                    rheap := h1\<rparr>)))"

record IncoreTransformResult =
  func :: Function
  num_added_outputs :: nat

definition TransformIncoreFunction :: "OpRegistry \<Rightarrow> OpConversionRegistry \<Rightarrow> Function \<Rightarrow> heap
    \<Rightarrow> error + (IncoreTransformResult \<times> heap)" where
  "TransformIncoreFunction reg conv fn h =
     (case insert_loads reg (func_span fn) (params fn) [] [] h of
        Inl e \<Rightarrow> Inl e
      | Inr (m, stmts, h1) \<Rightarrow>
          (case convert_stmts reg conv (flatten_body (body fn))
                  \<lparr>tensor_to_tile = m, new_stmts = stmts, return_stmt = None, bheap = h1\<rparr> of
             Inl e \<Rightarrow> Inl e
           | Inr st \<Rightarrow>
               (case return_stmt st of
                  None \<Rightarrow> Inl (InternalCheck ''Internal error: InCore function has no return statement'')
                | Some (vals, ret_span) \<Rightarrow>
                    (case store_returns reg (return_types fn) (tensor_to_tile st) (func_span fn) 0 vals
                            \<lparr>new_params = params fn, new_return_types = [], new_return_exprs = [],
                             added = 0, out_stmts = new_stmts st, rheap = bheap st\<rparr> of
                       Inl e \<Rightarrow> Inl e
                     | Inr rs \<Rightarrow>
                         Inr (\<lparr>func = \<lparr>func_name = func_name fn, params = new_params rs,
                                       return_types = new_return_types rs,
                                       body = SeqStmts (out_stmts rs @ [ReturnStmt (new_return_exprs rs) ret_span])
                                                (func_span fn),
                                       func_span = func_span fn, func_type = InCore\<rparr>,
                               num_added_outputs = added rs\<rparr>, rheap rs)))))"

section \<open>ConvertTensorToBlockOps: the call sites\<close>

record site_state =
  site_stmts :: "Stmt list"
  changed :: bool
  var_map :: var_map
  sheap :: heap

text \<open>The block the source repeats for an assignment whose call is not rewritten:
  \<open>value\<close> is the substituted value, \<open>val\<close> the value of the assignment.\<close>

definition keep_site_assign :: "Var \<Rightarrow> Expr \<Rightarrow> Expr \<Rightarrow> Span \<Rightarrow> heap \<Rightarrow> site_state \<Rightarrow> site_state" where
  "keep_site_assign var val value span h st =
     (if expr_ptr value \<noteq> expr_ptr val then
        (let new_var = Var h (var_name var) (GetType value) (var_span var)
         in st\<lparr>site_stmts := site_stmts st @ [AssignStmt new_var value span],
               var_map := (var_name var, new_var) # var_map st,
               changed := True, sheap := Suc h\<rparr>)
      else st\<lparr>site_stmts := site_stmts st @ [AssignStmt var val span], sheap := h\<rparr>)"

text \<open>The loop that creates the output tensors: \<open>k\<close> iterations are left, \<open>i\<close> is the
  loop index.\<close>

fun create_outputs :: "OpRegistry \<Rightarrow> Span \<Rightarrow> Var list \<Rightarrow> nat \<Rightarrow> nat \<Rightarrow> nat \<Rightarrow> Stmt list \<Rightarrow> Expr list \<Rightarrow> heap
    \<Rightarrow> error + (Stmt list \<times> Expr list \<times> heap)" where
  "create_outputs reg span ps orig_param_count 0 i stmts extra_args h = Inr (stmts, extra_args, h)"
| "create_outputs reg span ps orig_param_count (Suc k) i stmts extra_args h =
     (case var_type (ps ! (orig_param_count + i)) of
        TensorType shape dt ms \<Rightarrow>
          (let (shape_tuple, h1) = MakeShapeTuple shape span h
           in (case Create reg ''tensor.create'' [shape_tuple] [(''dtype'', AnyDataType dt)] span h1 of
                 Inl e \<Rightarrow> Inl e
               | Inr (create_call, h2) \<Rightarrow>
                   (let out_var = Var h2 (''out_'' @ to_string i) (GetType create_call) span
                    in create_outputs reg span ps orig_param_count k (Suc i)
                         (stmts @ [AssignStmt out_var create_call span])
                         (extra_args @ [VarExpr out_var]) (Suc h2))))
      | _ \<Rightarrow> Inl (InternalCheck ''Internal error: output param is not TensorType''))"

text \<open>The return type of the rewritten call; the null pointer when the transformed
  function returns nothing.\<close>

definition new_return_type :: "Function \<Rightarrow> Type" where
  "new_return_type incore_func =
     (if return_types incore_func = [] then NullType
      else if length (return_types incore_func) = 1 then return_types incore_func ! 0
      else TupleType (return_types incore_func))"

text \<open>The rewrite of a call of a transformed InCore function with \<open>num_outputs > 0\<close>.
  \<open>params_.size() - num_outputs\<close> is unsigned: with more outputs than parameters it
  wraps, and the first read of \<open>params_\<close> is beyond its end, undefined behaviour in the
  source and an error here.  A call built without a type has the sentinel type.\<close>

definition rewrite_call :: "OpRegistry \<Rightarrow> Span \<Rightarrow> Function \<Rightarrow> nat \<Rightarrow> Var \<Rightarrow> Op \<Rightarrow> Expr list \<Rightarrow> kwargs
    \<Rightarrow> Span \<Rightarrow> Span \<Rightarrow> heap \<Rightarrow> site_state \<Rightarrow> error + site_state" where
  "rewrite_call reg span incore_func num_outputs var f args kw call_span assign_span h st =
     (if length (params incore_func) < num_outputs
      then Inl (UndefinedBehaviour ''params_ read out of range'')
      else (case create_outputs reg span (params incore_func)
                   (length (params incore_func) - num_outputs) num_outputs 0 (site_stmts st) [] h of
              Inl e \<Rightarrow> Inl e
            | Inr (stmts, extra_args, h1) \<Rightarrow>
                (let new_args = args @ extra_args;
                     rt = new_return_type incore_func;
                     new_call = (if rt \<noteq> NullType then Call h1 f new_args kw rt call_span
                                 else Call h1 f new_args kw VoidType call_span);
                     new_assign_var = Var (Suc h1) (var_name var) rt (var_span var)
                 in Inr (st\<lparr>site_stmts := stmts @ [AssignStmt new_assign_var new_call assign_span],
                           var_map := (var_name var, new_assign_var) # var_map st,
                           changed := True, sheap := Suc (Suc h1)\<rparr>))))"

text \<open>One top-level statement of a non-InCore function.\<close>

fun update_stmt :: "OpRegistry \<Rightarrow> (string \<rightharpoonup> nat) \<Rightarrow> (string \<rightharpoonup> Function) \<Rightarrow> Span \<Rightarrow> Stmt \<Rightarrow> site_state
    \<Rightarrow> error + site_state" where
  "update_stmt reg incore_added_outputs transformed_incore_funcs span (ReturnStmt vals ret_span) st =
     (if var_map st \<noteq> [] then
        (case SubstituteExprs vals (var_map st) (sheap st) of
           Inl e \<Rightarrow> Inl e
         | Inr (new_ret_exprs, c, h1) \<Rightarrow>
             Inr (st\<lparr>site_stmts := site_stmts st @ [ReturnStmt new_ret_exprs ret_span], sheap := h1\<rparr>))
      else Inr (st\<lparr>site_stmts := site_stmts st @ [ReturnStmt vals ret_span]\<rparr>))"
| "update_stmt reg incore_added_outputs transformed_incore_funcs span (AssignStmt var val assign_span) st =
     (case (if var_map st = [] then Inr (val, sheap st) else SubstituteExpr val (var_map st) (sheap st)) of
        Inl e \<Rightarrow> Inl e
      | Inr (value, h1) \<Rightarrow>
          (case value of
             Call p f args kw t call_span \<Rightarrow>
               (if \<not> is_GlobalVar f then Inr (keep_site_assign var val value assign_span h1 st)
                else (case incore_added_outputs (op_name f) of
                        None \<Rightarrow> Inr (keep_site_assign var val value assign_span h1 st)
                      | Some num_outputs \<Rightarrow>
                          if num_outputs = 0 then Inr (keep_site_assign var val value assign_span h1 st)
                          else (case transformed_incore_funcs (op_name f) of
                                  None \<Rightarrow> Inl (InternalCheck ''Internal error: transformed InCore function not found'')
                                | Some incore_func \<Rightarrow>
                                    rewrite_call reg span incore_func num_outputs var f args kw
                                      call_span assign_span h1 st)))
           | _ \<Rightarrow> Inr (keep_site_assign var val value assign_span h1 st)))"
| "update_stmt reg incore_added_outputs transformed_incore_funcs span stmt st =
     Inr (st\<lparr>site_stmts := site_stmts st @ [stmt]\<rparr>)"

fun update_stmts :: "OpRegistry \<Rightarrow> (string \<rightharpoonup> nat) \<Rightarrow> (string \<rightharpoonup> Function) \<Rightarrow> Span \<Rightarrow> Stmt list \<Rightarrow> site_state
    \<Rightarrow> error + site_state" where
  "update_stmts reg ao tf span [] st = Inr st"
| "update_stmts reg ao tf span (stmt # stmts) st =
     (case update_stmt reg ao tf span stmt st of
        Inl e \<Rightarrow> Inl e
      | Inr st1 \<Rightarrow> update_stmts reg ao tf span stmts st1)"

definition UpdateCallSites :: "OpRegistry \<Rightarrow> Function \<Rightarrow> (string \<rightharpoonup> nat) \<Rightarrow> (string \<rightharpoonup> Function) \<Rightarrow> heap
    \<Rightarrow> error + (Function \<times> heap)" where
  "UpdateCallSites reg fn incore_added_outputs transformed_incore_funcs h =
     (case update_stmts reg incore_added_outputs transformed_incore_funcs (func_span fn)
             (flatten_body (body fn)) \<lparr>site_stmts = [], changed = False, var_map = [], sheap = h\<rparr> of
        Inl e \<Rightarrow> Inl e
      | Inr st \<Rightarrow>
          if \<not> changed st then Inr (fn, sheap st)
          else Inr (\<lparr>func_name = func_name fn, params = params fn, return_types = return_types fn,
                     body = SeqStmts (site_stmts st) (func_span fn), func_span = func_span fn,
                     func_type = func_type fn\<rparr>, sheap st))"

section \<open>Programs and the pass\<close>

text \<open>
  Modelled from the spec: \<open>Program\<close> (\<open>program.h\<close> is not among the sources): the functions
  keyed by their global variable, in insertion order, a name and a span; a program built
  from a vector of functions keys each by its own name.
\<close>

record Program =
  program_functions :: "(string \<times> Function) list"
  program_name :: string
  program_span :: Span

definition make_Program :: "Function list \<Rightarrow> string \<Rightarrow> Span \<Rightarrow> Program" where
  "make_Program fs nm span = \<lparr>program_functions = map (\<lambda>f. (func_name f, f)) fs, program_name = nm, program_span = span\<rparr>"

text \<open>Phase 1 of the pass: the loop over the functions of the program.\<close>

fun transform_functions :: "OpRegistry \<Rightarrow> OpConversionRegistry \<Rightarrow> (string \<times> Function) list
    \<Rightarrow> (string \<rightharpoonup> nat) \<Rightarrow> (string \<rightharpoonup> Function) \<Rightarrow> Function list \<Rightarrow> heap
    \<Rightarrow> error + ((string \<rightharpoonup> nat) \<times> (string \<rightharpoonup> Function) \<times> Function list \<times> heap)" where
  "transform_functions reg conv [] ao tf functions_phase1 h = Inr (ao, tf, functions_phase1, h)"
| "transform_functions reg conv ((gvar, fn) # rest) ao tf functions_phase1 h =
     (if func_type fn = InCore then
        (case TransformIncoreFunction reg conv fn h of
           Inl e \<Rightarrow> Inl e
         | Inr (res, h1) \<Rightarrow>
             transform_functions reg conv rest (ao(func_name fn \<mapsto> num_added_outputs res))
               (tf(func_name fn \<mapsto> func res)) (functions_phase1 @ [func res]) h1)
      else transform_functions reg conv rest ao tf (functions_phase1 @ [fn]) h)"

text \<open>Phase 2 of the pass.\<close>

fun update_functions :: "OpRegistry \<Rightarrow> (string \<rightharpoonup> nat) \<Rightarrow> (string \<rightharpoonup> Function) \<Rightarrow> Function list \<Rightarrow> heap
    \<Rightarrow> error + (Function list \<times> heap)" where
  "update_functions reg ao tf [] h = Inr ([], h)"
| "update_functions reg ao tf (fn # rest) h =
     (if func_type fn \<noteq> InCore then
        (case UpdateCallSites reg fn ao tf h of
           Inl e \<Rightarrow> Inl e
         | Inr (fn1, h1) \<Rightarrow>
             (case update_functions reg ao tf rest h1 of
                Inl e \<Rightarrow> Inl e
              | Inr (fs, h2) \<Rightarrow> Inr (fn1 # fs, h2)))
      else (case update_functions reg ao tf rest h of
              Inl e \<Rightarrow> Inl e
            | Inr (fs, h2) \<Rightarrow> Inr (fn # fs, h2)))"

definition ConvertTensorToBlockOps :: "OpRegistry \<Rightarrow> OpConversionRegistry \<Rightarrow> Program \<Rightarrow> heap
    \<Rightarrow> error + (Program \<times> heap)" where
  "ConvertTensorToBlockOps reg conv program h =
     (case transform_functions reg conv (program_functions program) Map.empty Map.empty [] h of
        Inl e \<Rightarrow> Inl e
      | Inr (ao, tf, functions_phase1, h1) \<Rightarrow>
          (case update_functions reg ao tf functions_phase1 h1 of
             Inl e \<Rightarrow> Inl e
           | Inr (functions_phase2, h2) \<Rightarrow>
               Inr (make_Program functions_phase2 (program_name program) (program_span program), h2)))"

section \<open>The IncoreBlockOps property verifier\<close>

datatype DiagnosticSeverity = Warning | Error

record Diagnostic =
  severity :: DiagnosticSeverity
  rule_name :: string
  error_code :: int
  message :: string
  diag_span :: Span

text \<open>Modelled from the spec: \<open>OpRegistry::GetEntry\<close> returns the entry of a registered
  name and fails with \<open>UnknownOp\<close> otherwise.\<close>

definition GetEntry :: "OpRegistry \<Rightarrow> string \<Rightarrow> error + OpEntry" where
  "GetEntry reg nm = (case reg nm of None \<Rightarrow> Inl (UnknownOp nm) | Some entry \<Rightarrow> Inr entry)"

text \<open>\<open>CheckTensorOp\<close>, on the op of the call and the span of the statement.\<close>

definition CheckTensorOp :: "OpRegistry \<Rightarrow> OpConversionRegistry \<Rightarrow> Op \<Rightarrow> Span \<Rightarrow> Diagnostic list
    \<Rightarrow> error + Diagnostic list" where
  "CheckTensorOp reg conv f span diagnostics =
     (if is_GlobalVar f then Inr diagnostics
      else if \<not> IsRegistered reg (op_name f) then Inr diagnostics
      else (case GetEntry reg (op_name f) of
              Inl e \<Rightarrow> Inl e
            | Inr entry \<Rightarrow>
                if category entry = ''TensorOp'' \<and> HasConversion conv (op_name f)
                then Inr (diagnostics @
                       [\<lparr>severity = Error, rule_name = ''IncoreBlockOps'', error_code = 0,
                         message = ''Tensor op '' @ [CHR 0x27] @ op_name f @ [CHR 0x27]
                           @ '' found in InCore function (should have been converted)'',
                         diag_span = span\<rparr>])
                else Inr diagnostics))"

text \<open>
  \<open>IncoreBlockOpsVerifier\<close>: the two overridden statement visits, which check a call that
  is the value of the assignment or the expression of the evaluation and then run the
  default visit.  Modelled from the spec: the default visit of \<open>IRVisitor\<close> (\<open>visitor.h\<close>
  is not among the sources) walks the children of a node; the verifier overrides no
  expression visit, so walking an expression adds no diagnostic, and the default visit
  of a statement visits the statements below it in order.
\<close>

fun VisitStmt :: "OpRegistry \<Rightarrow> OpConversionRegistry \<Rightarrow> Stmt \<Rightarrow> Diagnostic list \<Rightarrow> error + Diagnostic list"
and VisitStmts :: "OpRegistry \<Rightarrow> OpConversionRegistry \<Rightarrow> Stmt list \<Rightarrow> Diagnostic list \<Rightarrow> error + Diagnostic list"
where
  "VisitStmt reg conv (AssignStmt var val span) diagnostics =
     (case val of
        Call p f args kw t call_span \<Rightarrow> CheckTensorOp reg conv f span diagnostics
      | _ \<Rightarrow> Inr diagnostics)"
| "VisitStmt reg conv (EvalStmt e span) diagnostics =
     (case e of
        Call p f args kw t call_span \<Rightarrow> CheckTensorOp reg conv f span diagnostics
      | _ \<Rightarrow> Inr diagnostics)"
| "VisitStmt reg conv (ReturnStmt vals span) diagnostics = Inr diagnostics"
| "VisitStmt reg conv (IfStmt c then_body else_body span) diagnostics =
     (case VisitStmt reg conv then_body diagnostics of
        Inl e \<Rightarrow> Inl e
      | Inr d1 \<Rightarrow> (case else_body of None \<Rightarrow> Inr d1 | Some s \<Rightarrow> VisitStmt reg conv s d1))"
| "VisitStmt reg conv (ForStmt loop_var start stop step loop_body span) diagnostics =
     VisitStmt reg conv loop_body diagnostics"
| "VisitStmt reg conv (SeqStmts stmts span) diagnostics = VisitStmts reg conv stmts diagnostics"
| "VisitStmts reg conv [] diagnostics = Inr diagnostics"
| "VisitStmts reg conv (s # ss) diagnostics =
     (case VisitStmt reg conv s diagnostics of
        Inl e \<Rightarrow> Inl e
      | Inr d1 \<Rightarrow> VisitStmts reg conv ss d1)"

text \<open>\<open>IncoreBlockOpsPropertyVerifierImpl::Verify\<close>: the loop over the functions.\<close>

fun Verify_functions :: "OpRegistry \<Rightarrow> OpConversionRegistry \<Rightarrow> (string \<times> Function) list \<Rightarrow> Diagnostic list
    \<Rightarrow> error + Diagnostic list" where
  "Verify_functions reg conv [] diagnostics = Inr diagnostics"
| "Verify_functions reg conv ((gv, fn) # rest) diagnostics =
     (if func_type fn \<noteq> InCore then Verify_functions reg conv rest diagnostics
      else (case VisitStmt reg conv (body fn) diagnostics of
              Inl e \<Rightarrow> Inl e
            | Inr d1 \<Rightarrow> Verify_functions reg conv rest d1))"

definition Verify :: "OpRegistry \<Rightarrow> OpConversionRegistry \<Rightarrow> Program \<Rightarrow> Diagnostic list \<Rightarrow> error + Diagnostic list" where
  "Verify reg conv program diagnostics = Verify_functions reg conv (program_functions program) diagnostics"

section \<open>The identity pass\<close>

text \<open>
  Modelled from the spec: \<open>CreateFunctionPass\<close> (its implementation is not among the
  sources) applies the transform to every function of the program, in insertion order,
  and assembles a new program.
\<close>

definition CreateFunctionPass :: "(Function \<Rightarrow> Function) \<Rightarrow> Program \<Rightarrow> Program" where
  "CreateFunctionPass transform program =
     make_Program (map (\<lambda>gf. transform (snd gf)) (program_functions program))
       (program_name program) (program_span program)"

text \<open>The lambda of \<open>pass::Identity\<close>.  It builds the function with the constructor's
  default function type, \<open>Opaque\<close>.\<close>

definition Identity_transform :: "Function \<Rightarrow> Function" where
  "Identity_transform fn =
     (let new_name = func_name fn @ ''_identity''
      in \<lparr>func_name = new_name, params = params fn, return_types = return_types fn,
          body = body fn, func_span = func_span fn, func_type = Opaque\<rparr>)"

definition Identity :: "Program \<Rightarrow> Program" where
  "Identity = CreateFunctionPass Identity_transform"

section \<open>Structural comparison\<close>

text \<open>
  Modelled from the spec: \<open>structural_equal\<close> and \<open>structural_hash\<close> (only their declarations
  and the developer notes on them are among the sources).  A node is seen through its
  field descriptors, as the reflection does: it has an address, a type name and the
  values of its fields, each a node, a primitive value or a sequence; the descriptor
  table \<open>D\<close> gives, for a type name and a position, the kind of the field there.  A
  variable has an address and a type, its name playing no part.  The traversal of
  \<open>Equal\<close> follows the developer notes (pointer fast path, null check, type name,
  \<open>EqualVar\<close> with the two variable maps, the three kinds of field); the hash follows the
  words of the spec: a combine over the type name and the fields that are not ignored,
  auto-mapping forced inside a definition field as for equality, a variable hashed by
  its type under auto-mapping and by its identity number otherwise.  The hashes of
  strings, of primitive values and the identity numbers are parameters.
\<close>

datatype FieldKind = IgnoreField | UsualField | DefField

text \<open>What a pointer or a field can hold: the null pointer, a primitive value, a
  sequence, a variable (address and type), any other node (address, type name and
  fields).\<close>

datatype IRNode =
    Null
  | Prim any
  | Seq "IRNode list"
  | VarNode ptr IRNode
  | Node ptr string "IRNode list"

text \<open>The two variable maps of \<open>StructuralEqual\<close>, left to right and right to left.\<close>

type_synonym var_maps = "(ptr \<rightharpoonup> ptr) \<times> (ptr \<rightharpoonup> ptr)"

definition EqualVar_map :: "ptr \<Rightarrow> ptr \<Rightarrow> var_maps \<Rightarrow> bool \<times> var_maps" where
  "EqualVar_map lhs rhs st =
     (case fst st lhs of
        Some r \<Rightarrow> (r = rhs, st)
      | None \<Rightarrow>
          (case snd st rhs of
             Some l \<Rightarrow> if l \<noteq> lhs then (False, st) else (True, ((fst st)(lhs \<mapsto> rhs), (snd st)(rhs \<mapsto> lhs)))
           | None \<Rightarrow> (True, ((fst st)(lhs \<mapsto> rhs), (snd st)(rhs \<mapsto> lhs)))))"

text \<open>\<open>Equal\<close>, with the flag \<open>am\<close> (auto-mapping) and the variable maps as state: equal
  pointers are equal; a null pointer equals only a null pointer; different type names
  differ; two variables are equal without auto-mapping only as pointers, and with it when
  their types are equal and the maps allow the pair; other nodes are compared field by
  field, a sequence by its length and then position by position.\<close>

fun Equal :: "(string \<Rightarrow> nat \<Rightarrow> FieldKind) \<Rightarrow> bool \<Rightarrow> IRNode \<Rightarrow> IRNode \<Rightarrow> var_maps \<Rightarrow> bool \<times> var_maps"
and EqualSeq :: "(string \<Rightarrow> nat \<Rightarrow> FieldKind) \<Rightarrow> bool \<Rightarrow> IRNode list \<Rightarrow> IRNode list \<Rightarrow> var_maps \<Rightarrow> bool \<times> var_maps"
and EqualFields :: "(string \<Rightarrow> nat \<Rightarrow> FieldKind) \<Rightarrow> bool \<Rightarrow> string \<Rightarrow> nat \<Rightarrow> IRNode list \<Rightarrow> IRNode list \<Rightarrow> var_maps
    \<Rightarrow> bool \<times> var_maps"
where
  "Equal D am Null b st = (b = Null, st)"
| "Equal D am (Prim v) b st = (b = Prim v, st)"
| "Equal D am (Seq xs) b st =
     (case b of Seq ys \<Rightarrow> if length xs \<noteq> length ys then (False, st) else EqualSeq D am xs ys st
      | _ \<Rightarrow> (False, st))"
| "Equal D am (VarNode p ty) b st =
     (case b of
        VarNode q ty' \<Rightarrow>
          if p = q then (True, st)
          else if \<not> am then (False, st)
          else (case Equal D True ty ty' st of
                  (False, st1) \<Rightarrow> (False, st1)
                | (True, st1) \<Rightarrow> EqualVar_map p q st1)
      | Node q tn' gs \<Rightarrow> (p = q, st)
      | _ \<Rightarrow> (False, st))"
| "Equal D am (Node p tn fs) b st =
     (case b of
        Node q tn' gs \<Rightarrow>
          if p = q then (True, st)
          else if tn \<noteq> tn' then (False, st)
          else EqualFields D am tn 0 fs gs st
      | VarNode q ty' \<Rightarrow> (p = q, st)
      | _ \<Rightarrow> (False, st))"
| "EqualSeq D am [] ys st = (ys = [], st)"
| "EqualSeq D am (x # xs) ys st =
     (case ys of
        [] \<Rightarrow> (False, st)
      | y # ys' \<Rightarrow>
          (case Equal D am x y st of
             (False, st1) \<Rightarrow> (False, st1)
           | (True, st1) \<Rightarrow> EqualSeq D am xs ys' st1))"
| "EqualFields D am tn i [] gs st = (gs = [], st)"
| "EqualFields D am tn i (f # fs) gs st =
     (case gs of
        [] \<Rightarrow> (False, st)
      | g # gs' \<Rightarrow>
          (case D tn i of
             IgnoreField \<Rightarrow> EqualFields D am tn (Suc i) fs gs' st
           | UsualField \<Rightarrow>
               (case Equal D am f g st of
                  (False, st1) \<Rightarrow> (False, st1)
                | (True, st1) \<Rightarrow> EqualFields D am tn (Suc i) fs gs' st1)
           | DefField \<Rightarrow>
               (case Equal D True f g st of
                  (False, st1) \<Rightarrow> (False, st1)
                | (True, st1) \<Rightarrow> EqualFields D am tn (Suc i) fs gs' st1)))"

text \<open>The combine of the developer notes, on \<open>uint64_t\<close>:
  \<open>seed ^ (value + 0x9e3779b9 + (seed << 6) + (seed >> 2))\<close>.\<close>

definition hash_combine :: "64 word \<Rightarrow> 64 word \<Rightarrow> 64 word" where
  "hash_combine seed v = seed XOR (v + 0x9e3779b9 + push_bit 6 seed + drop_bit 2 seed)"

text \<open>The hashes that the standard library and the identity numbering supply.\<close>

record Hashers =
  hash_string :: "string \<Rightarrow> 64 word"
  hash_value :: "any \<Rightarrow> 64 word"
  var_identity :: "ptr \<Rightarrow> 64 word"

fun Hash :: "(string \<Rightarrow> nat \<Rightarrow> FieldKind) \<Rightarrow> Hashers \<Rightarrow> bool \<Rightarrow> IRNode \<Rightarrow> 64 word"
and HashSeq :: "(string \<Rightarrow> nat \<Rightarrow> FieldKind) \<Rightarrow> Hashers \<Rightarrow> bool \<Rightarrow> IRNode list \<Rightarrow> 64 word \<Rightarrow> 64 word"
and HashFields :: "(string \<Rightarrow> nat \<Rightarrow> FieldKind) \<Rightarrow> Hashers \<Rightarrow> bool \<Rightarrow> string \<Rightarrow> nat \<Rightarrow> IRNode list \<Rightarrow> 64 word \<Rightarrow> 64 word"
where
  "Hash D H am Null = 0"
| "Hash D H am (Prim v) = hash_value H v"
| "Hash D H am (Seq xs) = HashSeq D H am xs (of_nat (length xs))"
| "Hash D H am (VarNode p ty) =
     hash_combine (hash_string H ''Var'') (if am then Hash D H True ty else var_identity H p)"
| "Hash D H am (Node p tn fs) = HashFields D H am tn 0 fs (hash_string H tn)"
| "HashSeq D H am [] seed = seed"
| "HashSeq D H am (x # xs) seed = HashSeq D H am xs (hash_combine seed (Hash D H am x))"
| "HashFields D H am tn i [] seed = seed"
| "HashFields D H am tn i (f # fs) seed =
     (case D tn i of
        IgnoreField \<Rightarrow> HashFields D H am tn (Suc i) fs seed
      | UsualField \<Rightarrow> HashFields D H am tn (Suc i) fs (hash_combine seed (Hash D H am f))
      | DefField \<Rightarrow> HashFields D H am tn (Suc i) fs (hash_combine seed (Hash D H True f)))"

text \<open>The nodes below a node that have an address, and the condition that, among the
  nodes of two sets, an address stands for one node only.\<close>

fun node_ptr :: "IRNode \<Rightarrow> ptr" where
  "node_ptr (VarNode p ty) = p"
| "node_ptr (Node p tn fs) = p"
| "node_ptr n = 0"

fun nodes :: "IRNode \<Rightarrow> IRNode set" where
  "nodes Null = {}"
| "nodes (Prim v) = {}"
| "nodes (Seq xs) = (\<Union>x \<in> set xs. nodes x)"
| "nodes (VarNode p ty) = insert (VarNode p ty) (nodes ty)"
| "nodes (Node p tn fs) = insert (Node p tn fs) (\<Union>x \<in> set fs. nodes x)"

definition consistent :: "IRNode set \<Rightarrow> IRNode set \<Rightarrow> bool" where
  "consistent A B = (\<forall>x \<in> A. \<forall>y \<in> B. node_ptr x = node_ptr y \<longrightarrow> x = y)"

text \<open>The two public functions: equality starts with empty variable maps.\<close>

definition structural_equal :: "(string \<Rightarrow> nat \<Rightarrow> FieldKind) \<Rightarrow> IRNode \<Rightarrow> IRNode \<Rightarrow> bool \<Rightarrow> bool" where
  "structural_equal D lhs rhs enable_auto_mapping = fst (Equal D enable_auto_mapping lhs rhs (Map.empty, Map.empty))"

definition structural_hash :: "(string \<Rightarrow> nat \<Rightarrow> FieldKind) \<Rightarrow> Hashers \<Rightarrow> IRNode \<Rightarrow> bool \<Rightarrow> 64 word" where
  "structural_hash D H node enable_auto_mapping = Hash D H enable_auto_mapping node"

section \<open>Predicates used to state the properties\<close>

fun is_ReturnStmt :: "Stmt \<Rightarrow> bool" where
  "is_ReturnStmt (ReturnStmt vals span) = True"
| "is_ReturnStmt s = False"

fun is_TensorType :: "Type \<Rightarrow> bool" where
  "is_TensorType (TensorType shape dt ms) = True"
| "is_TensorType t = False"

fun is_TileType :: "Type \<Rightarrow> bool" where
  "is_TileType (TileType shape dt ms) = True"
| "is_TileType t = False"

text \<open>A top-level statement that the body rewrite converts: an assignment whose value
  is a call of an op (not of a function) that has a registered conversion.\<close>

fun convertible :: "OpConversionRegistry \<Rightarrow> Stmt \<Rightarrow> bool" where
  "convertible conv (AssignStmt v (Call p f args kw t call_span) span) =
     (if is_GlobalVar f then False else HasConversion conv (op_name f))"
| "convertible conv s = False"

text \<open>No conversion rule of the registry puts a return statement into its prologue.\<close>

definition return_free_prologues :: "OpRegistry \<Rightarrow> OpConversionRegistry \<Rightarrow> bool" where
  "return_free_prologues reg conv =
     (\<forall>n f args kw span h res h'. conv n = Some f \<and> f reg args kw span h = Inr (res, h')
        \<longrightarrow> list_all (\<lambda>s. \<not> is_ReturnStmt s) (prologue res))"

text \<open>The return statement that the loop over the body remembers: the last one at top
  level, starting from \<open>r\<close>.\<close>

fun last_return :: "Stmt list \<Rightarrow> (Expr list \<times> Span) option \<Rightarrow> (Expr list \<times> Span) option" where
  "last_return [] r = r"
| "last_return (ReturnStmt vals span # ss) r = last_return ss (Some (vals, span))"
| "last_return (s # ss) r = last_return ss r"

text \<open>The ops of all calls in an expression and in a statement, nested ones included.\<close>

fun expr_calls :: "Expr \<Rightarrow> Op list" where
  "expr_calls (VarExpr v) = []"
| "expr_calls (ConstInt p i d s) = []"
| "expr_calls (ConstBool p b s) = []"
| "expr_calls (Call p f as kw t s) = f # concat (map expr_calls as)"
| "expr_calls (MakeTuple p es s) = concat (map expr_calls es)"
| "expr_calls (TupleGetItemExpr p e i s) = expr_calls e"
| "expr_calls (BinaryExpr p k l r d s) = expr_calls l @ expr_calls r"
| "expr_calls (UnaryExpr p k e d s) = expr_calls e"

fun stmt_calls :: "Stmt \<Rightarrow> Op list" where
  "stmt_calls (AssignStmt v e span) = expr_calls e"
| "stmt_calls (EvalStmt e span) = expr_calls e"
| "stmt_calls (ReturnStmt vals span) = concat (map expr_calls vals)"
| "stmt_calls (IfStmt c t e span) =
     expr_calls c @ stmt_calls t @ (case e of None \<Rightarrow> [] | Some s \<Rightarrow> stmt_calls s)"
| "stmt_calls (ForStmt v start stop step b span) =
     expr_calls start @ expr_calls stop @ expr_calls step @ stmt_calls b"
| "stmt_calls (SeqStmts ss span) = concat (map stmt_calls ss)"

text \<open>A statement and the statements below it.\<close>

fun stmt_nodes :: "Stmt \<Rightarrow> Stmt list" where
  "stmt_nodes (IfStmt c t e span) =
     IfStmt c t e span # stmt_nodes t @ (case e of None \<Rightarrow> [] | Some s \<Rightarrow> stmt_nodes s)"
| "stmt_nodes (ForStmt v start stop step b span) = ForStmt v start stop step b span # stmt_nodes b"
| "stmt_nodes (SeqStmts ss span) = SeqStmts ss span # concat (map stmt_nodes ss)"
| "stmt_nodes s = [s]"

text \<open>The op of the call that is the value of an assignment or the expression of an
  evaluation, with the span of that statement.\<close>

fun direct_call :: "Stmt \<Rightarrow> (Op \<times> Span) option" where
  "direct_call (AssignStmt v (Call p f args kw t call_span) span) = Some (f, span)"
| "direct_call (EvalStmt (Call p f args kw t call_span) span) = Some (f, span)"
| "direct_call s = None"

text \<open>An op that the verifier reports: not a function, registered as a \<open>TensorOp\<close>, with a
  conversion.\<close>

definition residual_tensor_op :: "OpRegistry \<Rightarrow> OpConversionRegistry \<Rightarrow> Op \<Rightarrow> bool" where
  "residual_tensor_op reg conv f =
     (if is_GlobalVar f then False
      else (case reg (op_name f) of
              None \<Rightarrow> False
            | Some entry \<Rightarrow> category entry = ''TensorOp'' \<and> HasConversion conv (op_name f)))"

definition tensor_op_diagnostic :: "Op \<Rightarrow> Span \<Rightarrow> Diagnostic" where
  "tensor_op_diagnostic f span =
     \<lparr>severity = Error, rule_name = ''IncoreBlockOps'', error_code = 0,
      message = ''Tensor op '' @ [CHR 0x27] @ op_name f @ [CHR 0x27]
        @ '' found in InCore function (should have been converted)'',
      diag_span = span\<rparr>"

text \<open>The diagnostics that a statement contributes, and the InCore functions of a
  program.\<close>

definition stmt_diags :: "OpRegistry \<Rightarrow> OpConversionRegistry \<Rightarrow> Stmt \<Rightarrow> Diagnostic list" where
  "stmt_diags reg conv s =
     concat (map (\<lambda>s'. case direct_call s' of
                          None \<Rightarrow> []
                        | Some (f, span) \<Rightarrow>
                            if residual_tensor_op reg conv f then [tensor_op_diagnostic f span] else [])
                 (stmt_nodes s))"

definition incore_functions :: "Program \<Rightarrow> (string \<times> Function) list" where
  "incore_functions program = filter (\<lambda>gf. func_type (snd gf) = InCore) (program_functions program)"

section \<open>Sample inputs\<close>

text \<open>Concrete nodes and tables at which the theorems below are instantiated.\<close>

definition sample_span :: Span where
  "sample_span = Span ''kernel.py'' 1 1"

definition sample_x :: Var where
  "sample_x = Var 0 ''x'' (ScalarType INT64) sample_span"

definition sample_x_tile :: Var where
  "sample_x_tile = Var 5 ''x_tile'' (TileType [] INT64 (Some UB)) sample_span"

definition sample_sum :: Expr where
  "sample_sum = BinaryExpr 2 Add (VarExpr sample_x) (ConstInt 1 1 INT64 sample_span) INT64 sample_span"

definition sample_sum_right :: Expr where
  "sample_sum_right = BinaryExpr 3 Add (ConstInt 1 1 INT64 sample_span) (VarExpr sample_x) INT64 sample_span"

definition sample_neg :: Expr where
  "sample_neg = UnaryExpr 4 Neg (VarExpr sample_x) INT64 sample_span"

text \<open>The function of scenario S2: \<open>f(a: Tensor[[16],FP32]) -> Tensor[[16],FP32]\<close> with body
  \<open>t = tensor.add(a, a); return t\<close>, and the nodes of its conversion.  The nodes of the
  input are at the addresses 0 to 3; 4 is the next free address.\<close>

definition s2_shape :: "Expr list" where
  "s2_shape = [ConstInt 0 16 INT64 sample_span]"

definition s2_tensor :: Type where
  "s2_tensor = TensorType s2_shape FP32 None"

definition s2_a :: Var where
  "s2_a = Var 1 ''a'' s2_tensor sample_span"

definition s2_t :: Var where
  "s2_t = Var 2 ''t'' s2_tensor sample_span"

definition s2_f :: Function where
  "s2_f = \<lparr>func_name = ''f'', params = [s2_a], return_types = [s2_tensor],
     body = SeqStmts
       [AssignStmt s2_t (Call 3 (Op ''tensor.add'') [VarExpr s2_a, VarExpr s2_a] [] s2_tensor sample_span)
          sample_span,
        ReturnStmt [VarExpr s2_t] sample_span] sample_span,
     func_span = sample_span, func_type = InCore\<rparr>"

definition s2_load_args :: "Expr list" where
  "s2_load_args = [VarExpr s2_a, MakeTuple 5 [ConstInt 4 0 INT64 sample_span] sample_span,
                   MakeTuple 6 s2_shape sample_span]"

definition s2_a_tile :: "Type \<Rightarrow> Var" where
  "s2_a_tile tload = Var 8 ''a_tile'' tload sample_span"

definition s2_t_tile :: "Type \<Rightarrow> Var" where
  "s2_t_tile tadd = Var 10 ''t_tile'' tadd sample_span"

definition s2_out_param :: Var where
  "s2_out_param = Var 11 ''out_0'' s2_tensor sample_span"

definition s2_store_args :: "Type \<Rightarrow> Expr list" where
  "s2_store_args tadd = [VarExpr (s2_t_tile tadd), MakeTuple 13 [ConstInt 12 0 INT64 sample_span] sample_span,
                       MakeTuple 14 s2_shape sample_span, VarExpr s2_out_param]"

definition s2_out_var :: "Type \<Rightarrow> Var" where
  "s2_out_var tstore = Var 16 ''out_0'' tstore sample_span"

definition s2_converted :: "Type \<Rightarrow> Type \<Rightarrow> Type \<Rightarrow> Function" where
  "s2_converted tload tadd tstore = \<lparr>func_name = ''f'', params = [s2_a, s2_out_param], return_types = [tstore],
     body = SeqStmts
       [AssignStmt (s2_a_tile tload)
          (Call 7 (Op ''block.load'') s2_load_args [(''target_memory'', AnyMemorySpace UB)] tload sample_span)
          sample_span,
        AssignStmt (s2_t_tile tadd)
          (Call 9 (Op ''block.add'') [VarExpr (s2_a_tile tload), VarExpr (s2_a_tile tload)] [] tadd sample_span)
          sample_span,
        AssignStmt (s2_out_var tstore)
          (Call 15 (Op ''block.store'') (s2_store_args tadd) [] tstore sample_span)
          sample_span,
        ReturnStmt [VarExpr (s2_out_var tstore)] sample_span] sample_span,
     func_span = sample_span, func_type = InCore\<rparr>"

text \<open>A small op table: the type rules of the ops that the scenarios use.\<close>

definition load_entry :: OpEntry where
  "load_entry = \<lparr>category = ''BlockOp'', default_kwargs = [],
     infer_result_type = (\<lambda>args kw. case args of
        [t, offs, MakeTuple p shp s] \<Rightarrow>
          (case GetType t of TensorType sh dt ms \<Rightarrow> Inr (TileType shp dt (Some UB))
           | _ \<Rightarrow> Inl (TypeMismatch ''block.load''))
      | _ \<Rightarrow> Inl (TypeMismatch ''block.load''))\<rparr>"

definition add_entry :: OpEntry where
  "add_entry = \<lparr>category = ''BlockOp'', default_kwargs = [],
     infer_result_type = (\<lambda>args kw. case args of
        [x, y] \<Rightarrow>
          (case GetType x of TileType sh dt ms \<Rightarrow> Inr (TileType sh dt ms)
           | _ \<Rightarrow> Inl (TypeMismatch ''block.add''))
      | _ \<Rightarrow> Inl (TypeMismatch ''block.add''))\<rparr>"

definition store_entry :: OpEntry where
  "store_entry = \<lparr>category = ''BlockOp'', default_kwargs = [],
     infer_result_type = (\<lambda>args kw. case args of
        [t, offs, shp, out] \<Rightarrow> Inr (GetType out)
      | _ \<Rightarrow> Inl (TypeMismatch ''block.store''))\<rparr>"

definition create_entry :: OpEntry where
  "create_entry = \<lparr>category = ''TensorOp'', default_kwargs = [],
     infer_result_type = (\<lambda>args kw. case (args, kw) of
        ([MakeTuple p shp s], [(k, AnyDataType dt)]) \<Rightarrow> Inr (TensorType shp dt None)
      | _ \<Rightarrow> Inl (TypeMismatch ''tensor.create''))\<rparr>"

definition tensor_add_entry :: OpEntry where
  "tensor_add_entry = \<lparr>category = ''TensorOp'', default_kwargs = [],
     infer_result_type = (\<lambda>args kw. case args of
        [x, y] \<Rightarrow> Inr (GetType x)
      | _ \<Rightarrow> Inl (TypeMismatch ''tensor.add''))\<rparr>"

definition sample_ops :: OpRegistry where
  "sample_ops = [''block.load'' \<mapsto> load_entry, ''block.add'' \<mapsto> add_entry,
                 ''block.store'' \<mapsto> store_entry, ''tensor.create'' \<mapsto> create_entry,
                 ''tensor.add'' \<mapsto> tensor_add_entry]"

text \<open>An InCore function that is in block form already: it makes a tile and returns it.\<close>

definition tile_type :: Type where
  "tile_type = TileType s2_shape FP32 (Some UB)"

definition tile_f :: Function where
  "tile_f = \<lparr>func_name = ''g'', params = [], return_types = [tile_type],
     body = SeqStmts
       [AssignStmt (Var 1 ''t'' tile_type sample_span)
          (Call 2 (Op ''block.full'') [] [] tile_type sample_span) sample_span,
        ReturnStmt [VarExpr (Var 1 ''t'' tile_type sample_span)] sample_span] sample_span,
     func_span = sample_span, func_type = InCore\<rparr>"

text \<open>An InCore function without a return statement: \<open>n = tensor.dim(a, 0); m = n + 1\<close> on
  its tensor parameter \<open>a\<close>, \<open>tensor.dim\<close> being an op without a conversion.\<close>

definition no_return_f :: Function where
  "no_return_f = \<lparr>func_name = ''h'', params = [s2_a], return_types = [],
     body = SeqStmts
       [AssignStmt (Var 2 ''n'' (ScalarType INT64) sample_span)
          (Call 3 (Op ''tensor.dim'') [VarExpr s2_a, ConstInt 4 0 INT64 sample_span] []
             (ScalarType INT64) sample_span) sample_span,
        AssignStmt (Var 5 ''m'' (ScalarType INT64) sample_span)
          (BinaryExpr 6 Add (VarExpr (Var 2 ''n'' (ScalarType INT64) sample_span))
             (ConstInt 7 1 INT64 sample_span) INT64 sample_span) sample_span] sample_span,
     func_span = sample_span, func_type = InCore\<rparr>"

text \<open>A function of scalars only, already in the form the pass produces.\<close>

definition scalar_f :: Function where
  "scalar_f = \<lparr>func_name = ''k'', params = [sample_x], return_types = [ScalarType INT64],
     body = SeqStmts
       [AssignStmt (Var 3 ''y'' (ScalarType INT64) sample_span) sample_sum sample_span,
        ReturnStmt [VarExpr (Var 3 ''y'' (ScalarType INT64) sample_span)] sample_span] sample_span,
     func_span = sample_span, func_type = InCore\<rparr>"

text \<open>Two functions without parameters: a bare return, and an empty body.\<close>

definition bare_return_f :: Function where
  "bare_return_f = \<lparr>func_name = ''r'', params = [], return_types = [],
     body = ReturnStmt [] sample_span, func_span = sample_span, func_type = InCore\<rparr>"

definition empty_f :: Function where
  "empty_f = \<lparr>func_name = ''e'', params = [], return_types = [],
     body = SeqStmts [] sample_span, func_span = sample_span, func_type = InCore\<rparr>"

text \<open>An InCore function that returns the result of a tensor op directly.\<close>

definition return_call_f :: Function where
  "return_call_f = \<lparr>func_name = ''f'', params = [s2_a], return_types = [s2_tensor],
     body = ReturnStmt [Call 3 (Op ''tensor.add'') [VarExpr s2_a, VarExpr s2_a] [] s2_tensor sample_span]
              sample_span,
     func_span = sample_span, func_type = InCore\<rparr>"

definition return_call_program :: Program where
  "return_call_program = make_Program [return_call_f] ''p'' sample_span"

definition s2_program :: Program where
  "s2_program = make_Program [s2_f] ''p'' sample_span"

text \<open>Scenario S3: the statement \<open>y = f(x)\<close> of an orchestration function, \<open>f\<close> being the
  converted function of scenario S2.\<close>

definition s3_x :: Var where
  "s3_x = Var 20 ''x'' s2_tensor sample_span"

definition s3_y :: Var where
  "s3_y = Var 21 ''y'' s2_tensor sample_span"

definition s3_call :: Expr where
  "s3_call = Call 22 (GlobalVar ''f'') [VarExpr s3_x] [] s2_tensor sample_span"

definition s3_f :: Function where
  "s3_f = s2_converted tile_type tile_type s2_tensor"

text \<open>Sample nodes: the expressions \<open>x + 1\<close> and \<open>y + 1\<close> and the statements \<open>x = 1\<close> and
  \<open>y = 1\<close>, with \<open>x\<close> and \<open>y\<close> two variables of the same type; descriptors in which the last
  field is the ignored span and the first field of an assignment is a definition.\<close>

definition sample_descriptors :: "string \<Rightarrow> nat \<Rightarrow> FieldKind" where
  "sample_descriptors tn i =
     (if tn = ''AssignStmt'' then (if i = 0 then DefField else if i = 1 then UsualField else IgnoreField)
      else if tn = ''Add'' \<or> tn = ''ConstInt'' then (if i < 2 then UsualField else IgnoreField)
      else UsualField)"

definition sample_hashers :: Hashers where
  "sample_hashers = \<lparr>hash_string = (\<lambda>s. of_nat (length s)),
                     hash_value = (\<lambda>v. case v of AnyInt i \<Rightarrow> of_int i | _ \<Rightarrow> 1),
                     var_identity = of_nat\<rparr>"

definition node_int64 :: IRNode where
  "node_int64 = Node 100 ''ScalarType'' [Prim (AnyDataType INT64)]"

definition node_x :: IRNode where
  "node_x = VarNode 1 node_int64"

definition node_y :: IRNode where
  "node_y = VarNode 2 node_int64"

definition node_one :: IRNode where
  "node_one = Node 3 ''ConstInt'' [Prim (AnyInt 1), Prim (AnyDataType INT64), Prim (AnyString ''a.py:1'')]"

definition node_x_plus_1 :: IRNode where
  "node_x_plus_1 = Node 4 ''Add'' [node_x, node_one, Prim (AnyString ''a.py:2'')]"

definition node_y_plus_1 :: IRNode where
  "node_y_plus_1 = Node 5 ''Add'' [node_y, node_one, Prim (AnyString ''b.py:7'')]"

definition node_x_is_1 :: IRNode where
  "node_x_is_1 = Node 6 ''AssignStmt'' [node_x, node_one, Prim (AnyString ''a.py:3'')]"

definition node_y_is_1 :: IRNode where
  "node_y_is_1 = Node 7 ''AssignStmt'' [node_y, node_one, Prim (AnyString ''b.py:8'')]"

text \<open>Scenario S3, the whole function: \<open>main(x) = (y = f(x); return y)\<close>, and what the
  call-site rewrite makes of it, starting at the free address 23.\<close>

definition s3_main :: Function where
  "s3_main = \<lparr>func_name = ''main'', params = [s3_x], return_types = [s2_tensor],
     body = SeqStmts [AssignStmt s3_y s3_call sample_span, ReturnStmt [VarExpr s3_y] sample_span] sample_span,
     func_span = sample_span, func_type = Orchestration\<rparr>"

definition s3_out :: Var where
  "s3_out = Var 25 ''out_0'' s2_tensor sample_span"

definition s3_new_y :: Var where
  "s3_new_y = Var 27 ''y'' s2_tensor sample_span"

definition s3_main_rewritten :: Function where
  "s3_main_rewritten = \<lparr>func_name = ''main'', params = [s3_x], return_types = [s2_tensor],
     body = SeqStmts
       [AssignStmt s3_out
          (Call 24 (Op ''tensor.create'') [MakeTuple 23 s2_shape sample_span] [(''dtype'', AnyDataType FP32)]
             s2_tensor sample_span) sample_span,
        AssignStmt s3_new_y
          (Call 26 (GlobalVar ''f'') [VarExpr s3_x, VarExpr s3_out] [] s2_tensor sample_span) sample_span,
        ReturnStmt [VarExpr s3_new_y] sample_span] sample_span,
     func_span = sample_span, func_type = Orchestration\<rparr>"







section \<open>Substitution and scalar arithmetic\<close>

lemma SubstituteExpr_untouched:
  "expr_vars e \<inter> fst ` set m = {} \<Longrightarrow> SubstituteExpr e m h = Inr (e, h)"
  "(\<Union>a \<in> set es. expr_vars a) \<inter> fst ` set m = {} \<Longrightarrow> SubstituteExprs es m h = Inr (es, False, h)"
proof (induction e m h and es m h rule: SubstituteExpr_SubstituteExprs.induct)
  case (1 v m h)
  then have "map_of m (var_name v) = None"
    by (simp add: map_of_eq_None_iff)
  then show ?case by simp
next
  case (10 a as m h)
  then show ?case by (simp add: Int_Un_distrib2)
qed (simp_all add: Int_Un_distrib2)

lemma SubstituteExpr_error:
  "SubstituteExpr e m h = Inl err \<Longrightarrow> \<exists>msg. err = InternalCheck msg"
  "SubstituteExprs es m h = Inl err \<Longrightarrow> \<exists>msg. err = InternalCheck msg"
  by (induction e m h and es m h rule: SubstituteExpr_SubstituteExprs.induct)
     (auto split: sum.splits option.splits if_splits prod.splits)

text \<open>
  C8.  For a \<open>BinaryExpr\<close> or \<open>UnaryExpr\<close> given to \<open>SubstituteExpr\<close>: when no variable that
  occurs in it is a key of the map, the very same node comes back and nothing is
  allocated; in every case the outcome is either the same node or an internal-check
  failure, so no rebuilt arithmetic node is ever returned; and as soon as the
  substitution of an operand (the left operand, the right operand after the left one, or
  the operand of a unary expression) returns a node at another address, the outcome is
  an internal-check failure.
\<close>

theorem SubstituteExpr_scalar_arith:
  assumes "is_scalar_arith e"
  shows "(expr_vars e \<inter> fst ` set m = {} \<longrightarrow> SubstituteExpr e m h = Inr (e, h))
       \<and> ((\<exists>h'. SubstituteExpr e m h = Inr (e, h')) \<or> (\<exists>msg. SubstituteExpr e m h = Inl (InternalCheck msg)))
       \<and> (\<forall>p k l r d s l' h1. e = BinaryExpr p k l r d s \<and> SubstituteExpr l m h = Inr (l', h1)
             \<and> expr_ptr l' \<noteq> expr_ptr l \<longrightarrow> (\<exists>msg. SubstituteExpr e m h = Inl (InternalCheck msg)))
       \<and> (\<forall>p k l r d s l' h1 r' h2. e = BinaryExpr p k l r d s \<and> SubstituteExpr l m h = Inr (l', h1)
             \<and> SubstituteExpr r m h1 = Inr (r', h2)
             \<and> expr_ptr r' \<noteq> expr_ptr r \<longrightarrow> (\<exists>msg. SubstituteExpr e m h = Inl (InternalCheck msg)))
       \<and> (\<forall>p k x d s x' h1. e = UnaryExpr p k x d s \<and> SubstituteExpr x m h = Inr (x', h1)
             \<and> expr_ptr x' \<noteq> expr_ptr x \<longrightarrow> (\<exists>msg. SubstituteExpr e m h = Inl (InternalCheck msg)))"
proof (cases e)
  case (BinaryExpr p k l r d s)
  show ?thesis
    unfolding BinaryExpr
    using SubstituteExpr_untouched(1)[of "BinaryExpr p k l r d s" m h]
      SubstituteExpr_error(1)[of l m h] SubstituteExpr_error(1)[of r m]
    by (auto split: sum.splits prod.splits)
next
  case (UnaryExpr p k x d s)
  show ?thesis
    unfolding UnaryExpr
    using SubstituteExpr_untouched(1)[of "UnaryExpr p k x d s" m h]
      SubstituteExpr_error(1)[of x m h]
    by (auto split: sum.splits prod.splits)
qed (use assms in simp_all)

theorem SubstituteExpr_scalar_arith_witness:
  "is_scalar_arith sample_sum
   \<and> expr_vars sample_sum \<inter> fst ` set [(''y'', sample_x_tile)] = {}
   \<and> SubstituteExpr sample_sum [(''y'', sample_x_tile)] 7 = Inr (sample_sum, 7)
   \<and> SubstituteExpr (VarExpr sample_x) [(''x'', sample_x_tile)] 7 = Inr (VarExpr sample_x_tile, 7)
   \<and> expr_ptr (VarExpr sample_x_tile) \<noteq> expr_ptr (VarExpr sample_x)
   \<and> (\<exists>msg. SubstituteExpr sample_sum [(''x'', sample_x_tile)] 7 = Inl (InternalCheck msg))
   \<and> (\<exists>msg. SubstituteExpr sample_sum_right [(''x'', sample_x_tile)] 7 = Inl (InternalCheck msg))
   \<and> (\<exists>msg. SubstituteExpr sample_neg [(''x'', sample_x_tile)] 7 = Inl (InternalCheck msg))"
proof -
  let ?m = "[(''x'', sample_x_tile)]" and ?one = "ConstInt 1 1 INT64 sample_span"
  have a: "is_scalar_arith sample_sum" "is_scalar_arith sample_sum_right" "is_scalar_arith sample_neg"
    by (simp_all add: sample_sum_def sample_sum_right_def sample_neg_def)
  have b: "expr_vars sample_sum \<inter> fst ` set [(''y'', sample_x_tile)] = {}"
    by (simp add: sample_sum_def sample_x_def)
  have c: "sample_sum = BinaryExpr 2 Add (VarExpr sample_x) ?one INT64 sample_span"
    "sample_sum_right = BinaryExpr 3 Add ?one (VarExpr sample_x) INT64 sample_span"
    "sample_neg = UnaryExpr 4 Neg (VarExpr sample_x) INT64 sample_span"
    by (simp_all add: sample_sum_def sample_sum_right_def sample_neg_def)
  have d: "SubstituteExpr (VarExpr sample_x) ?m 7 = Inr (VarExpr sample_x_tile, 7)"
    "SubstituteExpr ?one ?m 7 = Inr (?one, 7)"
    by (simp_all add: sample_x_def)
  have e: "expr_ptr (VarExpr sample_x_tile) \<noteq> expr_ptr (VarExpr sample_x)"
    by (simp add: sample_x_def sample_x_tile_def)
  from SubstituteExpr_scalar_arith [OF a(1), of "[(''y'', sample_x_tile)]" 7] b
  have f: "SubstituteExpr sample_sum [(''y'', sample_x_tile)] 7 = Inr (sample_sum, 7)"
    by blast
  from SubstituteExpr_scalar_arith [OF a(1), of ?m 7] c(1) d(1) e
  have g: "\<exists>msg. SubstituteExpr sample_sum ?m 7 = Inl (InternalCheck msg)"
    by meson
  from SubstituteExpr_scalar_arith [OF a(2), of ?m 7] c(2) d e
  have h: "\<exists>msg. SubstituteExpr sample_sum_right ?m 7 = Inl (InternalCheck msg)"
    by meson
  from SubstituteExpr_scalar_arith [OF a(3), of ?m 7] c(3) d(1) e
  have i: "\<exists>msg. SubstituteExpr sample_neg ?m 7 = Inl (InternalCheck msg)"
    by meson
  from a(1) b d(1) e f g h i show ?thesis by blast
qed

section \<open>The op-conversion registry\<close>

text \<open>
  C6.  Right after construction the registry has a conversion for exactly the thirteen
  default tensor ops, \<open>Lookup\<close> gives for each the simple conversion to its block op
  (\<open>block.adds\<close>, \<open>block.subs\<close>, \<open>block.muls\<close>, \<open>block.divs\<close> for the scalar variants), and
  it gives nothing for any other name.
\<close>

theorem OpConversionRegistry_defaults:
  "HasConversion OpConversionRegistry_init n =
     (n \<in> {''tensor.add'', ''tensor.sub'', ''tensor.mul'', ''tensor.div'', ''tensor.maximum'',
            ''tensor.exp'', ''tensor.cast'', ''tensor.reshape'', ''tensor.transpose'',
            ''tensor.add_scalar'', ''tensor.sub_scalar'', ''tensor.mul_scalar'', ''tensor.div_scalar''})
   \<and> Lookup OpConversionRegistry_init n =
       map_option simple_conversion
         (map_of [(''tensor.add'', ''block.add''), (''tensor.sub'', ''block.sub''),
                  (''tensor.mul'', ''block.mul''), (''tensor.div'', ''block.div''),
                  (''tensor.maximum'', ''block.maximum''), (''tensor.exp'', ''block.exp''),
                  (''tensor.cast'', ''block.cast''), (''tensor.reshape'', ''block.reshape''),
                  (''tensor.transpose'', ''block.transpose''),
                  (''tensor.add_scalar'', ''block.adds''), (''tensor.sub_scalar'', ''block.subs''),
                  (''tensor.mul_scalar'', ''block.muls''), (''tensor.div_scalar'', ''block.divs'')] n)"
  by (simp add: HasConversion_def Lookup_def OpConversionRegistry_init_def RegisterSimple_def)

text \<open>
  C7.  Registering a rule for a name, by \<open>RegisterSimple\<close> or \<open>RegisterCustom\<close>, whatever
  was registered for that name before, makes \<open>Lookup\<close> return the rule registered last;
  and the rule that \<open>RegisterSimple\<close> synthesizes fails as \<open>OpRegistry::Create\<close> of the
  target op fails, and otherwise returns an empty prologue with the created call as its
  result.
\<close>

theorem Register_override:
  "Lookup (RegisterCustom n g conversions) n = Some g
   \<and> Lookup (RegisterSimple n to_op conversions) n = Some (simple_conversion to_op)
   \<and> Lookup (RegisterCustom n g (RegisterCustom n g' conversions)) n = Some g
   \<and> Lookup (RegisterCustom n g (RegisterSimple n to_op' conversions)) n = Some g
   \<and> Lookup (RegisterSimple n to_op (RegisterCustom n g' conversions)) n = Some (simple_conversion to_op)
   \<and> Lookup (RegisterSimple n to_op (RegisterSimple n to_op' conversions)) n = Some (simple_conversion to_op)
   \<and> simple_conversion to_op reg args kw span h =
       (case Create reg to_op args kw span h of
          Inl e \<Rightarrow> Inl e
        | Inr (call, h1) \<Rightarrow> Inr (\<lparr>prologue = [], result = call\<rparr>, h1))"
  by (simp add: Lookup_def RegisterCustom_def RegisterSimple_def simple_conversion_def)

section \<open>The identity pass\<close>

text \<open>
  C10.  The identity pass keeps the functions of a program in order; each function, and
  the key it is stored under, gets its own name with \<open>_identity\<close> appended, and its
  parameters, return types and body are the very same as before (hence structurally
  equal, with or without auto-mapping).
\<close>

theorem Identity_appends_suffix:
  "map (\<lambda>gf. (fst gf, func_name (snd gf), params (snd gf), return_types (snd gf), body (snd gf)))
       (program_functions (Identity program))
   = map (\<lambda>gf. (func_name (snd gf) @ ''_identity'', func_name (snd gf) @ ''_identity'',
                 params (snd gf), return_types (snd gf), body (snd gf)))
       (program_functions program)"
  by (simp add: Identity_def CreateFunctionPass_def make_Program_def Identity_transform_def)

section \<open>Conversion of an InCore function\<close>

lemma to_string_0: "to_string 0 = ''0''"
  by (simp add: to_string.simps)

lemma Lookup_init_tensor_add:
  "Lookup OpConversionRegistry_init ''tensor.add'' = Some (simple_conversion ''block.add'')"
  by (simp add: Lookup_def OpConversionRegistry_init_def RegisterSimple_def)

text \<open>
  C1.  Scenario S2.  With an op table in which \<open>block.load\<close>, \<open>block.add\<close> and \<open>block.store\<close>
  are registered without default keyword arguments, \<open>block.load\<close> and \<open>block.add\<close> infer
  tile types of shape \<open>[16]\<close> and dtype FP32 on the arguments below and \<open>block.store\<close>
  infers some type, and with the registry of default conversions, the conversion of
  \<open>f(a) = (t = tensor.add(a, a); return t)\<close> succeeds: the parameters are \<open>a\<close> and
  \<open>out_0 : Tensor[[16],FP32]\<close>; the body is \<open>a_tile = block.load(a, (0,), (16,),
  target_memory=UB)\<close>, \<open>t_tile = block.add(a_tile, a_tile)\<close>, \<open>out_0 = block.store(t_tile,
  (0,), (16,), out_0)\<close>, \<open>return out_0\<close>; and one output was added.
\<close>

theorem S2_simple_op_conversion:
  assumes "reg ''block.load'' = Some le" and "default_kwargs le = []"
    and "infer_result_type le s2_load_args [(''target_memory'', AnyMemorySpace UB)]
           = Inr (TileType s2_shape FP32 ml)"
    and "reg ''block.add'' = Some ae" and "default_kwargs ae = []"
    and "infer_result_type ae
           [VarExpr (s2_a_tile (TileType s2_shape FP32 ml)), VarExpr (s2_a_tile (TileType s2_shape FP32 ml))] []
           = Inr (TileType s2_shape FP32 ma)"
    and "reg ''block.store'' = Some se" and "default_kwargs se = []"
    and "infer_result_type se (s2_store_args (TileType s2_shape FP32 ma)) [] = Inr ts"
  shows "TransformIncoreFunction reg OpConversionRegistry_init s2_f 4
         = Inr (\<lparr>func = s2_converted (TileType s2_shape FP32 ml) (TileType s2_shape FP32 ma) ts,
                 num_added_outputs = 1\<rparr>, 17)"
proof -
  let ?tl = "TileType s2_shape FP32 ml" and ?ta = "TileType s2_shape FP32 ma"
  have load: "Create reg ''block.load'' s2_load_args [(''target_memory'', AnyMemorySpace UB)] sample_span 7
      = Inr (Call 7 (Op ''block.load'') s2_load_args [(''target_memory'', AnyMemorySpace UB)]
               ?tl sample_span, 8)"
    using assms(1,2,3) by (simp add: Create_def merge_kwargs_def)
  have add: "Create reg ''block.add'' [VarExpr (s2_a_tile ?tl), VarExpr (s2_a_tile ?tl)] [] sample_span 9
      = Inr (Call 9 (Op ''block.add'') [VarExpr (s2_a_tile ?tl), VarExpr (s2_a_tile ?tl)] []
               ?ta sample_span, 10)"
    using assms(4,5,6) by (simp add: Create_def merge_kwargs_def)
  have store: "Create reg ''block.store'' (s2_store_args ?ta) [] sample_span 15
      = Inr (Call 15 (Op ''block.store'') (s2_store_args ?ta) [] ts sample_span, 16)"
    using assms(7,8,9) by (simp add: Create_def merge_kwargs_def)
  have p1: "insert_loads reg sample_span [s2_a] [] [] 4
      = Inr ([(''a'', s2_a_tile ?tl)],
             [AssignStmt (s2_a_tile ?tl)
                (Call 7 (Op ''block.load'') s2_load_args [(''target_memory'', AnyMemorySpace UB)]
                   ?tl sample_span) sample_span], 9)"
  proof -
    have "MakeZeroOffsets (length s2_shape) sample_span 4
        = (MakeTuple 5 [ConstInt 4 0 INT64 sample_span] sample_span, 6)"
      by (simp add: MakeZeroOffsets_def s2_shape_def)
    moreover have "[VarExpr s2_a, MakeTuple 5 [ConstInt 4 0 INT64 sample_span] sample_span,
        MakeTuple 6 s2_shape sample_span] = s2_load_args"
      by (simp add: s2_load_args_def)
    moreover have "var_type s2_a = TensorType s2_shape FP32 None" "var_name s2_a = ''a''"
      by (simp_all add: s2_a_def s2_tensor_def)
    ultimately show ?thesis
      using load by (simp add: Let_def MakeShapeTuple_def s2_a_tile_def)
  qed
  have conv: "convert_assign reg (simple_conversion ''block.add'') s2_t [VarExpr s2_a, VarExpr s2_a] []
        sample_span sample_span
        \<lparr>tensor_to_tile = [(''a'', s2_a_tile ?tl)], new_stmts = stmts, return_stmt = None, bheap = 9\<rparr>
      = Inr \<lparr>tensor_to_tile = [(''t'', s2_t_tile ?ta), (''a'', s2_a_tile ?tl)],
             new_stmts = stmts @ [AssignStmt (s2_t_tile ?ta)
                (Call 9 (Op ''block.add'') [VarExpr (s2_a_tile ?tl), VarExpr (s2_a_tile ?tl)] [] ?ta sample_span)
                sample_span],
             return_stmt = None, bheap = 11\<rparr>" for stmts
  proof -
    have "var_name s2_a = ''a''" "var_name s2_t = ''t''" "var_span s2_t = sample_span"
      by (simp_all add: s2_a_def s2_t_def)
    then show ?thesis
      using add by (simp add: Let_def convert_assign_def simple_conversion_def s2_t_tile_def)
  qed
  have p2: "convert_stmts reg OpConversionRegistry_init (flatten_body (body s2_f))
        \<lparr>tensor_to_tile = [(''a'', s2_a_tile ?tl)], new_stmts = stmts, return_stmt = None, bheap = 9\<rparr>
      = Inr \<lparr>tensor_to_tile = [(''t'', s2_t_tile ?ta), (''a'', s2_a_tile ?tl)],
             new_stmts = stmts @ [AssignStmt (s2_t_tile ?ta)
                (Call 9 (Op ''block.add'') [VarExpr (s2_a_tile ?tl), VarExpr (s2_a_tile ?tl)] [] ?ta sample_span)
                sample_span],
             return_stmt = Some ([VarExpr s2_t], sample_span), bheap = 11\<rparr>" for stmts
    by (simp add: s2_f_def Lookup_init_tensor_add conv)
  have p3: "store_returns reg [s2_tensor] [(''t'', s2_t_tile ?ta), (''a'', s2_a_tile ?tl)] sample_span 0
        [VarExpr s2_t]
        \<lparr>new_params = [s2_a], new_return_types = [], new_return_exprs = [], added = 0,
         out_stmts = stmts, rheap = 11\<rparr>
      = Inr \<lparr>new_params = [s2_a, s2_out_param], new_return_types = [ts],
             new_return_exprs = [VarExpr (s2_out_var ts)], added = 1,
             out_stmts = stmts @ [AssignStmt (s2_out_var ts)
                (Call 15 (Op ''block.store'') (s2_store_args ?ta) [] ts sample_span) sample_span],
             rheap = 17\<rparr>" for stmts
  proof -
    have "MakeZeroOffsets (length s2_shape) sample_span 12
        = (MakeTuple 13 [ConstInt 12 0 INT64 sample_span] sample_span, 14)"
      by (simp add: MakeZeroOffsets_def s2_shape_def)
    moreover have "[VarExpr (s2_t_tile ?ta), MakeTuple 13 [ConstInt 12 0 INT64 sample_span] sample_span,
        MakeTuple 14 s2_shape sample_span, VarExpr (Var 11 ''out_0'' (TensorType s2_shape FP32 None) sample_span)]
        = s2_store_args ?ta"
      by (simp add: s2_store_args_def s2_out_param_def s2_tensor_def)
    moreover have "var_name s2_t = ''t''" "var_type (s2_t_tile ?ta) = ?ta"
      by (simp_all add: s2_t_def s2_t_tile_def)
    ultimately show ?thesis
      using store
      by (simp add: Let_def MakeShapeTuple_def s2_tensor_def to_string_0 s2_out_param_def s2_out_var_def)
  qed
  have f: "params s2_f = [s2_a]" "func_span s2_f = sample_span" "return_types s2_f = [s2_tensor]"
    "func_name s2_f = ''f''"
    by (simp_all add: s2_f_def)
  show ?thesis
    unfolding TransformIncoreFunction_def f p1
    by (simp add: p2 p3 s2_converted_def del: store_returns.simps convert_stmts.simps)
qed


theorem S2_simple_op_conversion_witness:
  "TransformIncoreFunction sample_ops OpConversionRegistry_init s2_f 4
   = Inr (\<lparr>func = s2_converted (TileType s2_shape FP32 (Some UB)) (TileType s2_shape FP32 (Some UB)) s2_tensor,
           num_added_outputs = 1\<rparr>, 17)"
proof (rule S2_simple_op_conversion [where le = load_entry and ae = add_entry and se = store_entry])
  show "sample_ops ''block.load'' = Some load_entry"
    by (simp add: sample_ops_def)
  show "default_kwargs load_entry = []"
    by (simp add: load_entry_def)
  show "infer_result_type load_entry s2_load_args [(''target_memory'', AnyMemorySpace UB)]
        = Inr (TileType s2_shape FP32 (Some UB))"
    by (simp add: load_entry_def s2_load_args_def s2_a_def s2_tensor_def)
  show "sample_ops ''block.add'' = Some add_entry"
    by (simp add: sample_ops_def)
  show "default_kwargs add_entry = []"
    by (simp add: add_entry_def)
  show "infer_result_type add_entry
          [VarExpr (s2_a_tile (TileType s2_shape FP32 (Some UB))),
           VarExpr (s2_a_tile (TileType s2_shape FP32 (Some UB)))] []
        = Inr (TileType s2_shape FP32 (Some UB))"
    by (simp add: add_entry_def s2_a_tile_def)
  show "sample_ops ''block.store'' = Some store_entry"
    by (simp add: sample_ops_def)
  show "default_kwargs store_entry = []"
    by (simp add: store_entry_def)
  show "infer_result_type store_entry (s2_store_args (TileType s2_shape FP32 (Some UB))) [] = Inr s2_tensor"
    by (simp add: store_entry_def s2_store_args_def s2_out_param_def)
qed

lemma SubstituteExpr_empty [simp]:
  "SubstituteExpr e [] h = Inr (e, h)" "SubstituteExprs es [] h = Inr (es, False, h)"
  by (simp_all add: SubstituteExpr_untouched)

lemma insert_loads_no_tensor:
  "\<forall>p \<in> set ps. \<not> is_TensorType (var_type p) \<Longrightarrow> insert_loads reg span ps m stmts h = Inr (m, stmts, h)"
proof (induction ps)
  case Nil
  then show ?case by simp
next
  case (Cons p ps)
  then show ?case by (cases "var_type p") simp_all
qed

lemma keep_assign_empty:
  "tensor_to_tile st = [] \<Longrightarrow>
   keep_assign var val span st = Inr (st\<lparr>new_stmts := new_stmts st @ [AssignStmt var val span]\<rparr>)"
  by (simp add: keep_assign_def)

lemma convert_stmt_empty:
  assumes "tensor_to_tile st = []" and "\<not> convertible conv s" and "\<not> is_ReturnStmt s"
  shows "convert_stmt reg conv s st = Inr (st\<lparr>new_stmts := new_stmts st @ [s]\<rparr>)"
proof (cases s)
  case (AssignStmt v e span)
  show ?thesis
  proof (cases e)
    case (Call p f args kw t cs)
    then show ?thesis
      using assms AssignStmt
      by (auto simp: keep_assign_empty HasConversion_def Lookup_def)
  qed (use assms AssignStmt in \<open>simp_all add: keep_assign_empty\<close>)
qed (use assms in simp_all)

lemma convert_stmts_empty:
  assumes "tensor_to_tile st = []" and "\<forall>s \<in> set ss. \<not> convertible conv s"
  shows "convert_stmts reg conv ss st =
     Inr (st\<lparr>new_stmts := new_stmts st @ filter (\<lambda>s. \<not> is_ReturnStmt s) ss,
             return_stmt := last_return ss (return_stmt st)\<rparr>)"
  using assms
proof (induction ss arbitrary: st)
  case Nil
  then show ?case by simp
next
  case (Cons s ss)
  show ?case
  proof (cases "is_ReturnStmt s")
    case True
    then obtain vals span where s: "s = ReturnStmt vals span"
      by (cases s) simp_all
    show ?thesis
      using Cons.IH[of "st\<lparr>return_stmt := Some (vals, span)\<rparr>"] Cons.prems
      by (simp add: s)
  next
    case False
    have ns: "last_return (s # ss) r = last_return ss r" for r
      using False by (cases s) simp_all
    show ?thesis
      using Cons.IH[of "st\<lparr>new_stmts := new_stmts st @ [s]\<rparr>"] Cons.prems False
      by (simp add: convert_stmt_empty ns)
  qed
qed

lemma store_returns_plain:
  assumes "\<forall>e \<in> set es. \<not> is_TileType (GetType e)"
  shows "store_returns reg rtypes [] span i es st =
     Inr (st\<lparr>new_return_types := new_return_types st @ map GetType es,
             new_return_exprs := new_return_exprs st @ es\<rparr>)"
  using assms
proof (induction es arbitrary: st i)
  case Nil
  then show ?case by simp
next
  case (Cons e es)
  from Cons.prems have nt: "\<not> is_TileType (GetType e)" by simp
  show ?case
    using Cons.IH[of "Suc i" "st\<lparr>new_return_types := new_return_types st @ [GetType e],
        new_return_exprs := new_return_exprs st @ [e], rheap := rheap st\<rparr>"] Cons.prems nt
    by (cases "GetType e") simp_all
qed


text \<open>
  C4 (amended).  For a function without parameters of tensor type, without a top-level
  assignment of a call that has a registered conversion, with a top-level return
  statement, and whose returned values are not of tile type, the conversion succeeds,
  allocates nothing and adds no output; the function keeps its name and parameters, its
  return types are the types of the returned values, and its body is the \<open>SeqStmts\<close>,
  with the span of the function, of the top-level statements that are not returns,
  followed by the rebuilt last return statement.  In particular an InCore function
  whose body is already such a \<open>SeqStmts\<close> and whose return types are the types of the
  returned values comes back as it is.
\<close>

theorem plain_function_kept:
  assumes "\<forall>p \<in> set (params fn). \<not> is_TensorType (var_type p)"
    and "\<forall>s \<in> set (flatten_body (body fn)). \<not> convertible conv s"
    and "last_return (flatten_body (body fn)) None = Some (vals, ret_span)"
    and "\<forall>e \<in> set vals. \<not> is_TileType (GetType e)"
  shows "TransformIncoreFunction reg conv fn h =
      Inr (\<lparr>func = \<lparr>func_name = func_name fn, params = params fn, return_types = map GetType vals,
                    body = SeqStmts (filter (\<lambda>s. \<not> is_ReturnStmt s) (flatten_body (body fn))
                                     @ [ReturnStmt vals ret_span]) (func_span fn),
                    func_span = func_span fn, func_type = InCore\<rparr>,
             num_added_outputs = 0\<rparr>, h)
    \<and> (body fn = SeqStmts (ss @ [ReturnStmt vals ret_span]) (func_span fn)
         \<and> list_all (\<lambda>s. \<not> is_ReturnStmt s) ss
         \<and> return_types fn = map GetType vals \<and> func_type fn = InCore
       \<longrightarrow> TransformIncoreFunction reg conv fn h = Inr (\<lparr>func = fn, num_added_outputs = 0\<rparr>, h))"
proof -
  have main: "TransformIncoreFunction reg conv fn h =
      Inr (\<lparr>func = \<lparr>func_name = func_name fn, params = params fn, return_types = map GetType vals,
                    body = SeqStmts (filter (\<lambda>s. \<not> is_ReturnStmt s) (flatten_body (body fn))
                                     @ [ReturnStmt vals ret_span]) (func_span fn),
                    func_span = func_span fn, func_type = InCore\<rparr>,
             num_added_outputs = 0\<rparr>, h)"
    by (simp add: TransformIncoreFunction_def insert_loads_no_tensor[OF assms(1)]
        convert_stmts_empty[OF _ assms(2)] assms(3) store_returns_plain[OF assms(4)])
  have "filter (\<lambda>s. \<not> is_ReturnStmt s) (ss @ [ReturnStmt vals ret_span]) = ss"
    if "list_all (\<lambda>s. \<not> is_ReturnStmt s) ss"
    using that by (simp add: list_all_iff)
  then show ?thesis
    unfolding main by auto
qed

theorem plain_function_kept_witness:
  "TransformIncoreFunction sample_ops OpConversionRegistry_init scalar_f 4
   = Inr (\<lparr>func = scalar_f, num_added_outputs = 0\<rparr>, 4)"
proof -
  let ?y = "Var 3 ''y'' (ScalarType INT64) sample_span"
  have a: "\<forall>p \<in> set (params scalar_f). \<not> is_TensorType (var_type p)"
    by (simp add: scalar_f_def sample_x_def)
  have b: "\<forall>s \<in> set (flatten_body (body scalar_f)). \<not> convertible OpConversionRegistry_init s"
    by (simp add: scalar_f_def sample_sum_def)
  have c: "last_return (flatten_body (body scalar_f)) None = Some ([VarExpr ?y], sample_span)"
    by (simp add: scalar_f_def)
  have d: "\<forall>e \<in> set [VarExpr ?y]. \<not> is_TileType (GetType e)"
    by simp
  have e: "body scalar_f = SeqStmts ([AssignStmt ?y sample_sum sample_span] @ [ReturnStmt [VarExpr ?y] sample_span])
             (func_span scalar_f)
      \<and> list_all (\<lambda>s. \<not> is_ReturnStmt s) [AssignStmt ?y sample_sum sample_span]
      \<and> return_types scalar_f = map GetType [VarExpr ?y] \<and> func_type scalar_f = InCore"
    by (simp add: scalar_f_def)
  from plain_function_kept [OF a b c d, of sample_ops 4 "[AssignStmt ?y sample_sum sample_span]"] e
  show ?thesis by blast
qed

lemma tile_f_aborts:
  "TransformIncoreFunction sample_ops OpConversionRegistry_init tile_f 4
   = Inl (InternalCheck ''Internal error: return type should be TensorType'')"
proof -
  have "Lookup OpConversionRegistry_init ''block.full'' = None"
    by (simp add: Lookup_def OpConversionRegistry_init_def RegisterSimple_def)
  then show ?thesis
    by (simp add: TransformIncoreFunction_def tile_f_def keep_assign_def tile_type_def)
qed

theorem plain_function_counterexample:
  "\<not> (\<forall>reg conv fn h.
        func_type fn = InCore \<and> (\<forall>p \<in> set (params fn). \<not> is_TensorType (var_type p))
        \<and> (\<forall>f \<in> set (stmt_calls (body fn)). \<not> HasConversion conv (op_name f))
        \<longrightarrow> (\<exists>res h'. TransformIncoreFunction reg conv fn h = Inr (res, h')
              \<and> num_added_outputs res = 0 \<and> body (func res) = body fn))"
proof
  assume claim: "\<forall>reg conv fn h.
        func_type fn = InCore \<and> (\<forall>p \<in> set (params fn). \<not> is_TensorType (var_type p))
        \<and> (\<forall>f \<in> set (stmt_calls (body fn)). \<not> HasConversion conv (op_name f))
        \<longrightarrow> (\<exists>res h'. TransformIncoreFunction reg conv fn h = Inr (res, h')
              \<and> num_added_outputs res = 0 \<and> body (func res) = body fn)"
  have "func_type tile_f = InCore \<and> (\<forall>p \<in> set (params tile_f). \<not> is_TensorType (var_type p))
        \<and> (\<forall>f \<in> set (stmt_calls (body tile_f)). \<not> HasConversion OpConversionRegistry_init (op_name f))"
    by (simp add: tile_f_def HasConversion_def OpConversionRegistry_init_def RegisterSimple_def)
  with claim have "\<exists>res h'. TransformIncoreFunction sample_ops OpConversionRegistry_init tile_f 4 = Inr (res, h')
      \<and> num_added_outputs res = 0 \<and> body (func res) = body tile_f"
    by blast
  then show False
    by (simp add: tile_f_aborts)
qed

lemma keep_assign_return:
  "keep_assign var val span st = Inr st' \<Longrightarrow> return_stmt st' = return_stmt st"
  by (auto simp: keep_assign_def Let_def split: sum.splits prod.splits if_splits)

lemma convert_assign_return:
  "convert_assign reg converter var args kw cs span st = Inr st' \<Longrightarrow> return_stmt st' = return_stmt st"
  by (auto simp: convert_assign_def Let_def split: sum.splits prod.splits)

lemma convert_stmt_return:
  "convert_stmt reg conv s st = Inr st' \<Longrightarrow> \<not> is_ReturnStmt s \<Longrightarrow> return_stmt st' = return_stmt st"
  by (induction reg conv s st rule: convert_stmt.induct)
     (auto dest: keep_assign_return convert_assign_return split: if_splits option.splits)

lemma convert_stmts_return:
  "convert_stmts reg conv ss st = Inr st' \<Longrightarrow> list_all (\<lambda>s. \<not> is_ReturnStmt s) ss
   \<Longrightarrow> return_stmt st' = return_stmt st"
proof (induction ss arbitrary: st)
  case Nil
  then show ?case by simp
next
  case (Cons s ss)
  then show ?case
    by (auto split: sum.splits dest: convert_stmt_return)
qed

lemma insert_loads_stmts:
  "insert_loads reg span ps m stmts h = Inr (m', stmts', h') \<Longrightarrow> list_all (\<lambda>s. \<not> is_ReturnStmt s) stmts
   \<Longrightarrow> list_all (\<lambda>s. \<not> is_ReturnStmt s) stmts'"
proof (induction ps arbitrary: m stmts h)
  case Nil
  then show ?case by simp
next
  case (Cons p ps)
  show ?case
  proof (cases "var_type p")
    case (TensorType shape dt ms)
    with Cons.prems show ?thesis
      by (auto simp: Let_def MakeZeroOffsets_def MakeShapeTuple_def split: sum.splits prod.splits
          dest!: Cons.IH)
  qed (use Cons in auto)
qed

lemma keep_assign_stmts:
  "keep_assign var val span st = Inr st' \<Longrightarrow> list_all (\<lambda>s. \<not> is_ReturnStmt s) (new_stmts st)
   \<Longrightarrow> list_all (\<lambda>s. \<not> is_ReturnStmt s) (new_stmts st')"
  by (auto simp: keep_assign_def Let_def split: sum.splits prod.splits if_splits)

lemma convert_assign_stmts:
  "convert_assign reg converter var args kw cs span st = Inr st' \<Longrightarrow> conv n = Some converter
   \<Longrightarrow> return_free_prologues reg conv
   \<Longrightarrow> list_all (\<lambda>s. \<not> is_ReturnStmt s) (new_stmts st)
   \<Longrightarrow> list_all (\<lambda>s. \<not> is_ReturnStmt s) (new_stmts st')"
  unfolding return_free_prologues_def convert_assign_def
  by (fastforce simp: Let_def split: sum.splits prod.splits)

lemma convert_stmt_stmts:
  "convert_stmt reg conv s st = Inr st' \<Longrightarrow> return_free_prologues reg conv
   \<Longrightarrow> list_all (\<lambda>s. \<not> is_ReturnStmt s) (new_stmts st)
   \<Longrightarrow> list_all (\<lambda>s. \<not> is_ReturnStmt s) (new_stmts st')"
  by (induction reg conv s st rule: convert_stmt.induct)
     (auto simp: Lookup_def dest: keep_assign_stmts convert_assign_stmts split: if_splits option.splits)

lemma convert_stmts_stmts:
  "convert_stmts reg conv ss st = Inr st' \<Longrightarrow> return_free_prologues reg conv
   \<Longrightarrow> list_all (\<lambda>s. \<not> is_ReturnStmt s) (new_stmts st)
   \<Longrightarrow> list_all (\<lambda>s. \<not> is_ReturnStmt s) (new_stmts st')"
proof (induction ss arbitrary: st)
  case Nil
  then show ?case by simp
next
  case (Cons s ss)
  then show ?case
    by (auto split: sum.splits dest: convert_stmt_stmts)
qed

lemma store_returns_stmts:
  "store_returns reg rtypes m span i es st = Inr st' \<Longrightarrow> list_all (\<lambda>s. \<not> is_ReturnStmt s) (out_stmts st)
   \<Longrightarrow> list_all (\<lambda>s. \<not> is_ReturnStmt s) (out_stmts st')"
proof (induction es arbitrary: st i)
  case Nil
  then show ?case by simp
next
  case (Cons e es)
  from Cons.prems show ?case
    by (auto simp: Let_def MakeZeroOffsets_def MakeShapeTuple_def
        split: sum.splits prod.splits Type.splits if_splits dest!: Cons.IH)
qed


text \<open>
  C9 (amended).  A function whose flattened body has no return statement is never
  converted: the conversion fails, and when the load prologue and the body rewrite
  complete it fails with the internal check \<open>InCore function has no return statement\<close>.
  Every function that is converted has a \<open>SeqStmts\<close> body, with the span of the function,
  whose last statement is the rebuilt return statement; it is the only return statement
  at top level when no conversion rule puts a return statement into its prologue.
\<close>

theorem no_return_aborts:
  "(list_all (\<lambda>s. \<not> is_ReturnStmt s) (flatten_body (body fn)) \<longrightarrow>
      (\<exists>e. TransformIncoreFunction reg conv fn h = Inl e)
      \<and> (\<forall>m stmts h1 st.
            insert_loads reg (func_span fn) (params fn) [] [] h = Inr (m, stmts, h1)
            \<and> convert_stmts reg conv (flatten_body (body fn))
                  \<lparr>tensor_to_tile = m, new_stmts = stmts, return_stmt = None, bheap = h1\<rparr> = Inr st
            \<longrightarrow> TransformIncoreFunction reg conv fn h
                  = Inl (InternalCheck ''Internal error: InCore function has no return statement'')))
   \<and> (\<forall>res h'. TransformIncoreFunction reg conv fn h = Inr (res, h') \<longrightarrow>
         (\<exists>S vals span. body (func res) = SeqStmts (S @ [ReturnStmt vals span]) (func_span fn)
            \<and> (return_free_prologues reg conv \<longrightarrow> list_all (\<lambda>s. \<not> is_ReturnStmt s) S)))"
proof (intro conjI impI allI)
  assume nr: "list_all (\<lambda>s. \<not> is_ReturnStmt s) (flatten_body (body fn))"
  show "\<exists>e. TransformIncoreFunction reg conv fn h = Inl e"
    using convert_stmts_return[OF _ nr]
    by (fastforce simp: TransformIncoreFunction_def split: sum.splits prod.splits option.splits)
next
  fix m stmts h1 st
  assume nr: "list_all (\<lambda>s. \<not> is_ReturnStmt s) (flatten_body (body fn))"
    and ok: "insert_loads reg (func_span fn) (params fn) [] [] h = Inr (m, stmts, h1)
            \<and> convert_stmts reg conv (flatten_body (body fn))
                  \<lparr>tensor_to_tile = m, new_stmts = stmts, return_stmt = None, bheap = h1\<rparr> = Inr st"
  from convert_stmts_return[OF conjunct2[OF ok] nr] have "return_stmt st = None"
    by simp
  with ok show "TransformIncoreFunction reg conv fn h
      = Inl (InternalCheck ''Internal error: InCore function has no return statement'')"
    by (simp add: TransformIncoreFunction_def)
next
  fix res h'
  assume ok: "TransformIncoreFunction reg conv fn h = Inr (res, h')"
  then obtain m stmts h1 st vals span rs where
    p1: "insert_loads reg (func_span fn) (params fn) [] [] h = Inr (m, stmts, h1)"
    and p2: "convert_stmts reg conv (flatten_body (body fn))
               \<lparr>tensor_to_tile = m, new_stmts = stmts, return_stmt = None, bheap = h1\<rparr> = Inr st"
    and p3: "store_returns reg (return_types fn) (tensor_to_tile st) (func_span fn) 0 vals
               \<lparr>new_params = params fn, new_return_types = [], new_return_exprs = [],
                added = 0, out_stmts = new_stmts st, rheap = bheap st\<rparr> = Inr rs"
    and b: "body (func res) = SeqStmts (out_stmts rs @ [ReturnStmt (new_return_exprs rs) span]) (func_span fn)"
    by (auto simp: TransformIncoreFunction_def split: sum.splits prod.splits option.splits)
  have "list_all (\<lambda>s. \<not> is_ReturnStmt s) (out_stmts rs)" if rf: "return_free_prologues reg conv"
  proof -
    from insert_loads_stmts[OF p1] have "list_all (\<lambda>s. \<not> is_ReturnStmt s) stmts"
      by simp
    with convert_stmts_stmts[OF p2 rf] have "list_all (\<lambda>s. \<not> is_ReturnStmt s) (new_stmts st)"
      by simp
    with store_returns_stmts[OF p3] show ?thesis
      by simp
  qed
  with b show "\<exists>S vals span. body (func res) = SeqStmts (S @ [ReturnStmt vals span]) (func_span fn)
            \<and> (return_free_prologues reg conv \<longrightarrow> list_all (\<lambda>s. \<not> is_ReturnStmt s) S)"
    by blast
qed

lemma init_conversions_simple:
  "OpConversionRegistry_init n = Some f \<Longrightarrow> \<exists>to_op. f = simple_conversion to_op"
  by (auto simp: OpConversionRegistry_init_def RegisterSimple_def split: if_splits)

lemma init_return_free: "return_free_prologues reg OpConversionRegistry_init"
  unfolding return_free_prologues_def
proof (intro allI impI)
  fix n f args kw span h res h'
  assume a: "OpConversionRegistry_init n = Some f \<and> f reg args kw span h = Inr (res, h')"
  then obtain to_op where "f = simple_conversion to_op"
    using init_conversions_simple by blast
  with a have "prologue res = []"
    by (auto simp: simple_conversion_def split: sum.splits if_splits)
  then show "list_all (\<lambda>s. \<not> is_ReturnStmt s) (prologue res)"
    by simp
qed

theorem no_return_aborts_witness:
  "list_all (\<lambda>s. \<not> is_ReturnStmt s) (flatten_body (body empty_f))
   \<and> TransformIncoreFunction sample_ops OpConversionRegistry_init empty_f 4
       = Inl (InternalCheck ''Internal error: InCore function has no return statement'')
   \<and> return_free_prologues sample_ops OpConversionRegistry_init
   \<and> (\<exists>res h' S vals span.
         TransformIncoreFunction sample_ops OpConversionRegistry_init bare_return_f 4 = Inr (res, h')
         \<and> body (func res) = SeqStmts (S @ [ReturnStmt vals span]) (func_span bare_return_f)
         \<and> list_all (\<lambda>s. \<not> is_ReturnStmt s) S)"
proof -
  have a: "list_all (\<lambda>s. \<not> is_ReturnStmt s) (flatten_body (body empty_f))"
    by (simp add: empty_f_def)
  have b: "insert_loads sample_ops (func_span empty_f) (params empty_f) [] [] 4 = Inr ([], [], 4)
      \<and> convert_stmts sample_ops OpConversionRegistry_init (flatten_body (body empty_f))
            \<lparr>tensor_to_tile = [], new_stmts = [], return_stmt = None, bheap = 4\<rparr>
          = Inr \<lparr>tensor_to_tile = [], new_stmts = [], return_stmt = None, bheap = 4\<rparr>"
    by (simp add: empty_f_def)
  from no_return_aborts [of empty_f sample_ops OpConversionRegistry_init 4] a b
  have c: "TransformIncoreFunction sample_ops OpConversionRegistry_init empty_f 4
       = Inl (InternalCheck ''Internal error: InCore function has no return statement'')"
    by blast
  have d: "\<exists>res h'. TransformIncoreFunction sample_ops OpConversionRegistry_init bare_return_f 4 = Inr (res, h')"
    by (simp add: TransformIncoreFunction_def bare_return_f_def)
  note e = init_return_free [of sample_ops]
  from no_return_aborts [of bare_return_f sample_ops OpConversionRegistry_init 4] d e
  have f: "\<exists>res h' S vals span.
         TransformIncoreFunction sample_ops OpConversionRegistry_init bare_return_f 4 = Inr (res, h')
         \<and> body (func res) = SeqStmts (S @ [ReturnStmt vals span]) (func_span bare_return_f)
         \<and> list_all (\<lambda>s. \<not> is_ReturnStmt s) S"
    by blast
  from a c e f show ?thesis by blast
qed

lemma no_return_f_aborts:
  "TransformIncoreFunction sample_ops OpConversionRegistry_init no_return_f 8
   = Inl (InternalCheck ''Internal error: BinaryExpr operand substitution not supported'')"
proof -
  have "Lookup OpConversionRegistry_init ''tensor.dim'' = None"
    by (simp add: Lookup_def OpConversionRegistry_init_def RegisterSimple_def)
  then show ?thesis
    by (simp add: TransformIncoreFunction_def no_return_f_def s2_a_def s2_tensor_def s2_shape_def
        sample_ops_def load_entry_def Create_def merge_kwargs_def MakeZeroOffsets_def MakeShapeTuple_def
        keep_assign_def Let_def)
qed

theorem no_return_counterexample:
  "\<not> (\<forall>reg conv fn h.
        list_all (\<lambda>s. \<not> is_ReturnStmt s) (flatten_body (body fn))
        \<longrightarrow> TransformIncoreFunction reg conv fn h
              = Inl (InternalCheck ''Internal error: InCore function has no return statement''))"
proof
  assume claim: "\<forall>reg conv fn h.
        list_all (\<lambda>s. \<not> is_ReturnStmt s) (flatten_body (body fn))
        \<longrightarrow> TransformIncoreFunction reg conv fn h
              = Inl (InternalCheck ''Internal error: InCore function has no return statement'')"
  have "list_all (\<lambda>s. \<not> is_ReturnStmt s) (flatten_body (body no_return_f))"
    by (simp add: no_return_f_def)
  with claim have "TransformIncoreFunction sample_ops OpConversionRegistry_init no_return_f 8
      = Inl (InternalCheck ''Internal error: InCore function has no return statement'')"
    by blast
  then show False
    by (simp add: no_return_f_aborts)
qed

section \<open>The verifier\<close>

lemma CheckTensorOp_eq:
  "CheckTensorOp reg conv f span d =
     Inr (d @ (if residual_tensor_op reg conv f then [tensor_op_diagnostic f span] else []))"
  by (auto simp: CheckTensorOp_def residual_tensor_op_def tensor_op_diagnostic_def IsRegistered_def
      GetEntry_def split: option.splits)

lemma stmt_diags_SeqStmts:
  "stmt_diags reg conv (SeqStmts ss span) = concat (map (stmt_diags reg conv) ss)"
  by (induction ss) (simp_all add: stmt_diags_def)

lemma stmt_diags_simps:
  "stmt_diags reg conv (AssignStmt v e span) =
     (case e of Call p f args kw t cs \<Rightarrow>
        (if residual_tensor_op reg conv f then [tensor_op_diagnostic f span] else []) | _ \<Rightarrow> [])"
  "stmt_diags reg conv (EvalStmt e span) =
     (case e of Call p f args kw t cs \<Rightarrow>
        (if residual_tensor_op reg conv f then [tensor_op_diagnostic f span] else []) | _ \<Rightarrow> [])"
  "stmt_diags reg conv (ReturnStmt vals span) = []"
  "stmt_diags reg conv (IfStmt c t eb span) =
     stmt_diags reg conv t @ (case eb of None \<Rightarrow> [] | Some s \<Rightarrow> stmt_diags reg conv s)"
  "stmt_diags reg conv (ForStmt lv start stop step b span) = stmt_diags reg conv b"
  by (auto split: Expr.splits option.splits simp: stmt_diags_def)

lemma VisitStmt_eq:
  "VisitStmt reg conv s d = Inr (d @ stmt_diags reg conv s)"
  "VisitStmts reg conv ss d = Inr (d @ concat (map (stmt_diags reg conv) ss))"
  by (induction reg conv s d and reg conv ss d rule: VisitStmt_VisitStmts.induct)
     (auto simp: stmt_diags_simps stmt_diags_SeqStmts CheckTensorOp_eq split: Expr.splits option.splits)

lemma Verify_functions_eq:
  "Verify_functions reg conv fs d =
     Inr (d @ concat (map (\<lambda>gf. stmt_diags reg conv (body (snd gf)))
                        (filter (\<lambda>gf. func_type (snd gf) = InCore) fs)))"
  by (induction fs arbitrary: d) (auto simp: VisitStmt_eq)

lemma stmt_diags_member:
  "s' \<in> set (stmt_nodes s) \<Longrightarrow> direct_call s' = Some (f, span) \<Longrightarrow> residual_tensor_op reg conv f
   \<Longrightarrow> tensor_op_diagnostic f span \<in> set (stmt_diags reg conv s)"
  by (force simp: stmt_diags_def)

lemma stmt_diags_only:
  "d \<in> set (stmt_diags reg conv s) \<Longrightarrow>
   \<exists>s' f span. s' \<in> set (stmt_nodes s) \<and> direct_call s' = Some (f, span)
      \<and> residual_tensor_op reg conv f \<and> d = tensor_op_diagnostic f span"
proof -
  assume "d \<in> set (stmt_diags reg conv s)"
  then obtain s' where s': "s' \<in> set (stmt_nodes s)"
    and d: "d \<in> set (case direct_call s' of None \<Rightarrow> []
                        | Some (f, span) \<Rightarrow>
                            if residual_tensor_op reg conv f then [tensor_op_diagnostic f span] else [])"
    by (auto simp: stmt_diags_def)
  show ?thesis
  proof (cases "direct_call s'")
    case None
    with d show ?thesis by simp
  next
    case (Some fs)
    obtain f span where fs: "fs = (f, span)"
      by (cases fs)
    from d Some fs have "residual_tensor_op reg conv f" "d = tensor_op_diagnostic f span"
      by (simp_all split: if_splits)
    with s' Some fs show ?thesis by blast
  qed
qed

text \<open>
  C3 (amended).  The verifier never fails and only appends to the diagnostics it is
  given.  For every InCore function of the program and every assignment or evaluation
  statement in its body, at any depth of statement nesting, whose value or expression
  is itself a call of an op that is not a function, is registered with category
  \<open>TensorOp\<close> and has a conversion, the appended diagnostics contain the error that names
  the op, with the span of the statement; and they contain nothing else.  A program and
  its InCore functions alone give the same result.
\<close>

theorem IncoreBlockOps_verifier:
  "(\<exists>new. Verify reg conv program diagnostics = Inr (diagnostics @ new)
      \<and> (\<forall>gf \<in> set (program_functions program). func_type (snd gf) = InCore \<longrightarrow>
           (\<forall>s \<in> set (stmt_nodes (body (snd gf))). \<forall>f span.
              direct_call s = Some (f, span) \<and> residual_tensor_op reg conv f
              \<longrightarrow> tensor_op_diagnostic f span \<in> set new))
      \<and> (\<forall>d \<in> set new. \<exists>gf s f span.
             gf \<in> set (program_functions program) \<and> func_type (snd gf) = InCore
             \<and> s \<in> set (stmt_nodes (body (snd gf))) \<and> direct_call s = Some (f, span)
             \<and> residual_tensor_op reg conv f \<and> d = tensor_op_diagnostic f span))
   \<and> Verify reg conv program diagnostics
       = Verify reg conv (program\<lparr>program_functions := incore_functions program\<rparr>) diagnostics"
proof -
  let ?new = "concat (map (\<lambda>gf. stmt_diags reg conv (body (snd gf))) (incore_functions program))"
  have "Verify reg conv program diagnostics = Inr (diagnostics @ ?new)"
    by (simp add: Verify_def Verify_functions_eq incore_functions_def)
  moreover have "tensor_op_diagnostic f span \<in> set ?new"
    if "gf \<in> set (program_functions program)" "func_type (snd gf) = InCore"
      "s \<in> set (stmt_nodes (body (snd gf)))" "direct_call s = Some (f, span)"
      "residual_tensor_op reg conv f" for gf s f span
  proof -
    from that have "gf \<in> set (incore_functions program)"
      by (simp add: incore_functions_def)
    moreover from that have "tensor_op_diagnostic f span \<in> set (stmt_diags reg conv (body (snd gf)))"
      by (simp add: stmt_diags_member)
    ultimately show ?thesis
      by (simp only: set_concat set_map) blast
  qed
  moreover have "\<exists>gf s f span.
             gf \<in> set (program_functions program) \<and> func_type (snd gf) = InCore
             \<and> s \<in> set (stmt_nodes (body (snd gf))) \<and> direct_call s = Some (f, span)
             \<and> residual_tensor_op reg conv f \<and> d = tensor_op_diagnostic f span"
    if "d \<in> set ?new" for d
  proof -
    from that obtain gf where g: "gf \<in> set (incore_functions program)"
      and d: "d \<in> set (stmt_diags reg conv (body (snd gf)))"
      by (simp only: set_concat set_map) blast
    from g have "gf \<in> set (program_functions program)" "func_type (snd gf) = InCore"
      by (simp_all add: incore_functions_def)
    with stmt_diags_only[OF d] show ?thesis
      by blast
  qed
  moreover have "Verify reg conv program diagnostics
       = Verify reg conv (program\<lparr>program_functions := incore_functions program\<rparr>) diagnostics"
    by (simp add: Verify_def Verify_functions_eq incore_functions_def)
  ultimately show ?thesis by blast
qed

theorem IncoreBlockOps_verifier_witness:
  "(\<exists>new. Verify sample_ops OpConversionRegistry_init s2_program [] = Inr ([] @ new)
      \<and> tensor_op_diagnostic (Op ''tensor.add'') sample_span \<in> set new
      \<and> new \<noteq> [] \<and> list_all (\<lambda>d. severity d = Error) new)"
proof -
  let ?s = "AssignStmt s2_t (Call 3 (Op ''tensor.add'') [VarExpr s2_a, VarExpr s2_a] [] s2_tensor sample_span)
          sample_span"
  have a: "(''f'', s2_f) \<in> set (program_functions s2_program)"
    by (simp add: s2_program_def make_Program_def s2_f_def)
  have b: "func_type (snd (''f'', s2_f)) = InCore"
    by (simp add: s2_f_def)
  have c: "?s \<in> set (stmt_nodes (body (snd (''f'', s2_f))))"
    by (simp add: s2_f_def)
  have d: "direct_call ?s = Some (Op ''tensor.add'', sample_span)"
    by simp
  have e: "residual_tensor_op sample_ops OpConversionRegistry_init (Op ''tensor.add'')"
    by (simp add: residual_tensor_op_def sample_ops_def tensor_add_entry_def HasConversion_def
        OpConversionRegistry_init_def RegisterSimple_def)
  from IncoreBlockOps_verifier [of sample_ops OpConversionRegistry_init s2_program "[]"]
  obtain new where n: "Verify sample_ops OpConversionRegistry_init s2_program [] = Inr ([] @ new)"
    and m: "\<forall>gf \<in> set (program_functions s2_program). func_type (snd gf) = InCore \<longrightarrow>
           (\<forall>s \<in> set (stmt_nodes (body (snd gf))). \<forall>f span.
              direct_call s = Some (f, span) \<and> residual_tensor_op sample_ops OpConversionRegistry_init f
              \<longrightarrow> tensor_op_diagnostic f span \<in> set new)"
    and o: "\<forall>d \<in> set new. \<exists>gf s f span.
             gf \<in> set (program_functions s2_program) \<and> func_type (snd gf) = InCore
             \<and> s \<in> set (stmt_nodes (body (snd gf))) \<and> direct_call s = Some (f, span)
             \<and> residual_tensor_op sample_ops OpConversionRegistry_init f \<and> d = tensor_op_diagnostic f span"
    by blast
  from m a b c d e have i: "tensor_op_diagnostic (Op ''tensor.add'') sample_span \<in> set new"
    by blast
  then have ne: "new \<noteq> []"
    by auto
  from o have "\<forall>d \<in> set new. severity d = Error"
    by (auto simp: tensor_op_diagnostic_def)
  then have "list_all (\<lambda>d. severity d = Error) new"
    by (simp add: list_all_iff)
  with n i ne show ?thesis by blast
qed

theorem IncoreBlockOps_verifier_counterexample:
  "\<not> (\<forall>reg conv program diagnostics.
        \<forall>gf \<in> set (program_functions program). func_type (snd gf) = InCore \<longrightarrow>
          (\<forall>f \<in> set (stmt_calls (body (snd gf))). residual_tensor_op reg conv f \<longrightarrow>
             (\<exists>ds. Verify reg conv program diagnostics = Inr ds
                \<and> (\<exists>d \<in> set ds. severity d = Error))))"
proof
  assume claim: "\<forall>reg conv program diagnostics.
        \<forall>gf \<in> set (program_functions program). func_type (snd gf) = InCore \<longrightarrow>
          (\<forall>f \<in> set (stmt_calls (body (snd gf))). residual_tensor_op reg conv f \<longrightarrow>
             (\<exists>ds. Verify reg conv program diagnostics = Inr ds
                \<and> (\<exists>d \<in> set ds. severity d = Error)))"
  have a: "(''f'', return_call_f) \<in> set (program_functions return_call_program)"
    by (simp add: return_call_program_def make_Program_def return_call_f_def)
  have b: "func_type (snd (''f'', return_call_f)) = InCore"
    by (simp add: return_call_f_def)
  have c: "Op ''tensor.add'' \<in> set (stmt_calls (body (snd (''f'', return_call_f))))"
    by (simp add: return_call_f_def)
  have e: "residual_tensor_op sample_ops OpConversionRegistry_init (Op ''tensor.add'')"
    by (simp add: residual_tensor_op_def sample_ops_def tensor_add_entry_def HasConversion_def
        OpConversionRegistry_init_def RegisterSimple_def)
  from claim a b c e
  have "\<exists>ds. Verify sample_ops OpConversionRegistry_init return_call_program [] = Inr ds
                \<and> (\<exists>d \<in> set ds. severity d = Error)"
    by blast
  moreover have "Verify sample_ops OpConversionRegistry_init return_call_program [] = Inr []"
    by (simp add: Verify_def return_call_program_def make_Program_def return_call_f_def)
  ultimately show False by simp
qed

section \<open>The call-site rewrite\<close>

text \<open>What phase 1 records for an InCore function: the parameters of the transformed
  function are the old ones followed by the added outputs, as many as the recorded
  number, all of tensor type.\<close>

lemma store_returns_params:
  "store_returns reg rtypes m span i es st = Inr st' \<Longrightarrow>
   \<exists>outs. new_params st' = new_params st @ outs \<and> added st' = added st + length outs
      \<and> list_all (\<lambda>v. is_TensorType (var_type v)) outs"
proof (induction es arbitrary: st i)
  case Nil
  then show ?case by simp
next
  case (Cons e es)
  from Cons.prems show ?case
    by (fastforce simp: Let_def MakeZeroOffsets_def MakeShapeTuple_def
        split: sum.splits prod.splits Type.splits if_splits dest!: Cons.IH)
qed

lemma TransformIncoreFunction_params:
  assumes "TransformIncoreFunction reg conv fn h = Inr (res, h')"
  shows "\<exists>outs. params (func res) = params fn @ outs \<and> num_added_outputs res = length outs
      \<and> list_all (\<lambda>v. is_TensorType (var_type v)) outs"
  using assms
  by (auto simp: TransformIncoreFunction_def split: sum.splits prod.splits option.splits
      dest!: store_returns_params)







text \<open>Scenario S3 as a whole: the rewritten orchestration function creates \<open>out_0\<close>,
  passes it as the second argument, and \<open>y\<close> has the tensor type.\<close>

lemma S3_call_site_rewrite:
  "UpdateCallSites sample_ops s3_main [''f'' \<mapsto> 1] [''f'' \<mapsto> s3_f] 23 = Inr (s3_main_rewritten, 28)"
  by (simp add: UpdateCallSites_def s3_main_def s3_main_rewritten_def s3_call_def s3_y_def s3_x_def
      s3_f_def s2_converted_def s2_out_param_def s2_tensor_def rewrite_call_def Let_def
      MakeShapeTuple_def Create_def sample_ops_def create_entry_def merge_kwargs_def
      to_string_0 new_return_type_def s3_out_def s3_new_y_def)

section \<open>Structural equality and hashing\<close>

lemma consistent_mono: "consistent A B \<Longrightarrow> A' \<subseteq> A \<Longrightarrow> B' \<subseteq> B \<Longrightarrow> consistent A' B'"
  unfolding consistent_def by blast

lemma Equal_Hash:
  "Equal D am a b st = (True, st') \<Longrightarrow> consistent (nodes a) (nodes b) \<Longrightarrow> Hash D H am a = Hash D H am b"
  "EqualSeq D am xs ys st = (True, st') \<Longrightarrow> consistent (\<Union>x \<in> set xs. nodes x) (\<Union>x \<in> set ys. nodes x)
     \<Longrightarrow> length xs = length ys \<and> (\<forall>seed. HashSeq D H am xs seed = HashSeq D H am ys seed)"
  "EqualFields D am tn i fs gs st = (True, st') \<Longrightarrow> consistent (\<Union>x \<in> set fs. nodes x) (\<Union>x \<in> set gs. nodes x)
     \<Longrightarrow> (\<forall>seed. HashFields D H am tn i fs seed = HashFields D H am tn i gs seed)"
proof (induction D am a b st and D am xs ys st and D am tn i fs gs st arbitrary: st' and st' and st'
    rule: Equal_EqualSeq_EqualFields.induct)
  case (1 D am b st)
  then show ?case by simp
next
  case (2 D am v b st)
  then show ?case by simp
next
  case (3 D am xs b st)
  then show ?case by (auto split: IRNode.splits if_splits)
next
  case (4 D am p ty b st)
  show ?case
  proof (cases b)
    case (VarNode q ty')
    show ?thesis
    proof (cases "p = q")
      case True
      with "4.prems"(2) VarNode have "VarNode p ty = VarNode q ty'"
        by (simp add: consistent_def)
      then show ?thesis using VarNode by simp
    next
      case False
      with "4.prems"(1) VarNode have am: "am"
        by (auto split: if_splits)
      from "4.prems"(1) VarNode False am obtain st1 where e: "Equal D True ty ty' st = (True, st1)"
        by (auto split: prod.splits bool.splits)
      have "consistent (nodes ty) (nodes ty')"
        using "4.prems"(2) VarNode by (auto elim: consistent_mono)
      from "4.IH"[OF VarNode False _ e this] am have "Hash D H True ty = Hash D H True ty'"
        by simp
      then show ?thesis using VarNode am by simp
    qed
  next
    case (Node q tn gs)
    with "4.prems" have "VarNode p ty = Node q tn gs"
      by (simp add: consistent_def)
    then show ?thesis by simp
  qed (use "4.prems" in simp_all)
next
  case (5 D am p tn fs b st)
  show ?case
  proof (cases b)
    case (Node q tn' gs)
    show ?thesis
    proof (cases "p = q")
      case True
      with "5.prems"(2) Node have "Node p tn fs = Node q tn' gs"
        by (simp add: consistent_def)
      then show ?thesis using Node by simp
    next
      case False
      with "5.prems"(1) Node have tn: "tn = tn'" and e: "EqualFields D am tn 0 fs gs st = (True, st')"
        by (auto split: if_splits)
      have "consistent (\<Union>x \<in> set fs. nodes x) (\<Union>x \<in> set gs. nodes x)"
        using "5.prems"(2) Node by (auto elim: consistent_mono)
      from "5.IH"[OF Node False _ e this] tn show ?thesis
        using Node by simp
    qed
  next
    case (VarNode q ty')
    with "5.prems" have "Node p tn fs = VarNode q ty'"
      by (simp add: consistent_def)
    then show ?thesis by simp
  qed (use "5.prems" in simp_all)
next
  case (6 D am ys st)
  then show ?case by simp
next
  case (7 D am x xs ys st)
  from "7.prems"(1) obtain y ys' where ys: "ys = y # ys'"
    by (cases ys) simp_all
  from "7.prems"(1) ys obtain st1 where e1: "Equal D am x y st = (True, st1)"
    and e2: "EqualSeq D am xs ys' st1 = (True, st')"
    by (auto split: prod.splits bool.splits)
  have c1: "consistent (nodes x) (nodes y)"
    and c2: "consistent (\<Union>x \<in> set xs. nodes x) (\<Union>x \<in> set ys'. nodes x)"
    using "7.prems"(2) ys by (auto elim: consistent_mono)
  from "7.IH"(1)[OF ys e1 c1] have h1: "Hash D H am x = Hash D H am y" .
  from "7.IH"(2)[OF ys _ _ e2 c2] e1 have h2: "length xs = length ys' \<and> (\<forall>seed. HashSeq D H am xs seed = HashSeq D H am ys' seed)"
    by simp
  show ?case using ys h1 h2 by simp
next
  case (8 D am tn i gs st)
  then show ?case by simp
next
  case (9 D am tn i f fs gs st)
  from "9.prems"(1) obtain g gs' where gs: "gs = g # gs'"
    by (cases gs) simp_all
  have c1: "consistent (nodes f) (nodes g)"
    and c2: "consistent (\<Union>x \<in> set fs. nodes x) (\<Union>x \<in> set gs'. nodes x)"
    using "9.prems"(2) gs by (auto elim: consistent_mono)
  show ?case
  proof (cases "D tn i")
    case IgnoreField
    with "9.prems"(1) gs have e: "EqualFields D am tn (Suc i) fs gs' st = (True, st')"
      by simp
    from "9.IH"(1)[OF gs IgnoreField e c2] show ?thesis
      using gs IgnoreField by simp
  next
    case UsualField
    with "9.prems"(1) gs obtain st1 where e1: "Equal D am f g st = (True, st1)"
      and e2: "EqualFields D am tn (Suc i) fs gs' st1 = (True, st')"
      by (auto split: prod.splits bool.splits)
    from "9.IH"(2)[OF gs UsualField e1 c1] have h1: "Hash D H am f = Hash D H am g" .
    from "9.IH"(3)[OF gs UsualField _ _ e2 c2] e1 show ?thesis
      using gs UsualField h1 by simp
  next
    case DefField
    with "9.prems"(1) gs obtain st1 where e1: "Equal D True f g st = (True, st1)"
      and e2: "EqualFields D am tn (Suc i) fs gs' st1 = (True, st')"
      by (auto split: prod.splits bool.splits)
    from "9.IH"(4)[OF gs DefField e1 c1] have h1: "Hash D H True f = Hash D H True g" .
    from "9.IH"(5)[OF gs DefField _ _ e2 c2] e1 show ?thesis
      using gs DefField h1 by simp
  qed
qed


text \<open>
  C5.  For two nodes in which an address stands for one node only, and for each value
  of the auto-mapping flag: if \<open>structural_equal\<close> returns true, the two structural
  hashes, taken with the same flag, are equal.
\<close>

theorem structural_equal_hash:
  assumes "consistent (nodes a) (nodes b)" and "structural_equal D a b am"
  shows "structural_hash D H a am = structural_hash D H b am"
proof -
  from assms(2) obtain st' where "Equal D am a b (Map.empty, Map.empty) = (True, st')"
    by (cases "Equal D am a b (Map.empty, Map.empty)") (simp add: structural_equal_def)
  from Equal_Hash(1)[OF this assms(1)] show ?thesis
    by (simp add: structural_hash_def)
qed

theorem structural_equal_hash_witness:
  "consistent (nodes node_x_plus_1) (nodes node_y_plus_1)
   \<and> structural_equal sample_descriptors node_x_plus_1 node_y_plus_1 True
   \<and> structural_hash sample_descriptors sample_hashers node_x_plus_1 True
       = structural_hash sample_descriptors sample_hashers node_y_plus_1 True
   \<and> \<not> structural_equal sample_descriptors node_x_plus_1 node_y_plus_1 False
   \<and> consistent (nodes node_x_is_1) (nodes node_y_is_1)
   \<and> structural_equal sample_descriptors node_x_is_1 node_y_is_1 False
   \<and> structural_hash sample_descriptors sample_hashers node_x_is_1 False
       = structural_hash sample_descriptors sample_hashers node_y_is_1 False"
proof -
  have a: "consistent (nodes node_x_plus_1) (nodes node_y_plus_1)"
    by (simp add: consistent_def node_x_plus_1_def node_y_plus_1_def node_x_def node_y_def
        node_one_def node_int64_def)
  have b: "structural_equal sample_descriptors node_x_plus_1 node_y_plus_1 True"
    by (simp add: structural_equal_def node_x_plus_1_def node_y_plus_1_def node_x_def node_y_def
        node_one_def node_int64_def sample_descriptors_def EqualVar_map_def)
  have c: "\<not> structural_equal sample_descriptors node_x_plus_1 node_y_plus_1 False"
    by (simp add: structural_equal_def node_x_plus_1_def node_y_plus_1_def node_x_def node_y_def
        node_one_def node_int64_def sample_descriptors_def EqualVar_map_def)
  have d: "consistent (nodes node_x_is_1) (nodes node_y_is_1)"
    by (simp add: consistent_def node_x_is_1_def node_y_is_1_def node_x_def node_y_def
        node_one_def node_int64_def)
  have e: "structural_equal sample_descriptors node_x_is_1 node_y_is_1 False"
    by (simp add: structural_equal_def node_x_is_1_def node_y_is_1_def node_x_def node_y_def
        node_one_def node_int64_def sample_descriptors_def EqualVar_map_def)
  note f = structural_equal_hash [OF a b, of sample_hashers]
  note g = structural_equal_hash [OF d e, of sample_hashers]
  from a b c d e f g show ?thesis by blast
qed

end
